theory Spec2Isabelle
  imports Complex_Main "HOL-Library.Sublist"
begin

section \<open>JavaScript numbers\<close>

text \<open>
  The program computes with JavaScript numbers, the binary64 values of IEEE-754. A
  finite number is the real it denotes; beside the finite numbers stand the two
  infinities and NaN. Every sum, product and quotient of two finite numbers is rounded
  to the nearest binary64 value, ties to the even significand, and overflows to an
  infinity; a division by zero yields an infinity or NaN and every comparison with NaN
  is false. Only the sign of zero is not modelled: a zero divisor behaves as positive
  zero.
\<close>

datatype jsnum = Fin real | PInf | NInf | NaN

text \<open>Rounding to the nearest integer, ties to even.\<close>

definition round_even :: "real \<Rightarrow> int" where
  "round_even z = (let f = \<lfloor>z\<rfloor>; d = z - of_int f
                   in if d < 1/2 then f else if 1/2 < d then f + 1
                      else if even f then f else f + 1)"

text \<open>
  The binary exponent of a real: the \<open>e\<close> with \<open>2 powi e \<le> \<bar>x\<bar> < 2 powi (e + 1)\<close>,
  found by halving or doubling. The search stops at 1024, where binary64 overflows,
  and at -1022, the exponent shared by the smallest normal and all subnormal
  numbers.
\<close>

primrec halvings :: "nat \<Rightarrow> real \<Rightarrow> int \<Rightarrow> int" where
  "halvings 0 x e = e"
| "halvings (Suc n) x e = (if 2 \<le> x then halvings n (x / 2) (e + 1) else e)"

primrec doublings :: "nat \<Rightarrow> real \<Rightarrow> int \<Rightarrow> int" where
  "doublings 0 x e = e"
| "doublings (Suc n) x e = (if x < 1 then doublings n (x * 2) (e - 1) else e)"

definition binade :: "real \<Rightarrow> int" where
  "binade x = (if 1 \<le> \<bar>x\<bar> then halvings 1024 \<bar>x\<bar> 0 else doublings 1022 \<bar>x\<bar> 0)"

text \<open>The nearest multiple of the spacing of binary64 values around \<open>x\<close> (53 bits).\<close>

definition nearest :: "real \<Rightarrow> real" where
  "nearest x = of_int (round_even (x / 2 powi (binade x - 52))) * 2 powi (binade x - 52)"

text \<open>The binary64 value of a real result.\<close>

definition fl :: "real \<Rightarrow> jsnum" where
  "fl x = (if 2 powi 1024 \<le> \<bar>nearest x\<bar> then (if 0 < x then PInf else NInf)
           else Fin (nearest x))"

text \<open>
  A decimal literal of the source denotes the nearest binary64 value. Integer literals,
  \<^verbatim>\<open>0.5\<close> and \<^verbatim>\<open>1.5\<close> are binary64 values themselves and are written with \<^const>\<open>Fin\<close>.
\<close>

definition lit :: "real \<Rightarrow> jsnum" where
  "lit x = fl x"

fun jneg :: "jsnum \<Rightarrow> jsnum" where
  "jneg (Fin a) = Fin (- a)"
| "jneg PInf = NInf"
| "jneg NInf = PInf"
| "jneg NaN = NaN"

fun jabs :: "jsnum \<Rightarrow> jsnum" where
  "jabs (Fin a) = Fin \<bar>a\<bar>"
| "jabs PInf = PInf"
| "jabs NInf = PInf"
| "jabs NaN = NaN"

fun jadd :: "jsnum \<Rightarrow> jsnum \<Rightarrow> jsnum" where
  "jadd (Fin a) (Fin b) = fl (a + b)"
| "jadd NaN _ = NaN"
| "jadd _ NaN = NaN"
| "jadd PInf NInf = NaN"
| "jadd NInf PInf = NaN"
| "jadd PInf _ = PInf"
| "jadd _ PInf = PInf"
| "jadd NInf _ = NInf"
| "jadd _ NInf = NInf"

definition jsub :: "jsnum \<Rightarrow> jsnum \<Rightarrow> jsnum" where
  "jsub a b = jadd a (jneg b)"

fun jmul :: "jsnum \<Rightarrow> jsnum \<Rightarrow> jsnum" where
  "jmul (Fin a) (Fin b) = fl (a * b)"
| "jmul NaN _ = NaN"
| "jmul _ NaN = NaN"
| "jmul (Fin a) PInf = (if a = 0 then NaN else if 0 < a then PInf else NInf)"
| "jmul (Fin a) NInf = (if a = 0 then NaN else if 0 < a then NInf else PInf)"
| "jmul PInf (Fin b) = (if b = 0 then NaN else if 0 < b then PInf else NInf)"
| "jmul NInf (Fin b) = (if b = 0 then NaN else if 0 < b then NInf else PInf)"
| "jmul PInf PInf = PInf"
| "jmul PInf NInf = NInf"
| "jmul NInf PInf = NInf"
| "jmul NInf NInf = PInf"

fun jdiv :: "jsnum \<Rightarrow> jsnum \<Rightarrow> jsnum" where
  "jdiv (Fin a) (Fin b) =
     (if b \<noteq> 0 then fl (a / b)
      else if a = 0 then NaN else if 0 < a then PInf else NInf)"
| "jdiv NaN _ = NaN"
| "jdiv _ NaN = NaN"
| "jdiv (Fin a) PInf = Fin 0"
| "jdiv (Fin a) NInf = Fin 0"
| "jdiv PInf (Fin b) = (if 0 \<le> b then PInf else NInf)"
| "jdiv NInf (Fin b) = (if 0 \<le> b then NInf else PInf)"
| "jdiv PInf PInf = NaN"
| "jdiv PInf NInf = NaN"
| "jdiv NInf PInf = NaN"
| "jdiv NInf NInf = NaN"

fun jlt :: "jsnum \<Rightarrow> jsnum \<Rightarrow> bool" where
  "jlt (Fin a) (Fin b) = (a < b)"
| "jlt NaN _ = False"
| "jlt _ NaN = False"
| "jlt PInf _ = False"
| "jlt _ NInf = False"
| "jlt NInf _ = True"
| "jlt _ PInf = True"

fun jle :: "jsnum \<Rightarrow> jsnum \<Rightarrow> bool" where
  "jle (Fin a) (Fin b) = (a \<le> b)"
| "jle NaN _ = False"
| "jle _ NaN = False"
| "jle NInf _ = True"
| "jle _ PInf = True"
| "jle PInf _ = False"
| "jle _ NInf = False"

definition jgt :: "jsnum \<Rightarrow> jsnum \<Rightarrow> bool" where
  "jgt a b = jlt b a"

definition jge :: "jsnum \<Rightarrow> jsnum \<Rightarrow> bool" where
  "jge a b = jle b a"

text \<open>
  \<^verbatim>\<open>Math.round\<close> gives the nearest integer, the upper one of two equally near; it is a
  binary64 value whenever its argument is one, so nothing is rounded a second time.
\<close>

fun jround :: "jsnum \<Rightarrow> jsnum" where
  "jround (Fin a) = Fin (of_int (round a))"
| "jround x = x"

text \<open>\<^verbatim>\<open>Math.max\<close> and \<^verbatim>\<open>Math.min\<close> return NaN as soon as an argument is NaN.\<close>

definition jmax :: "jsnum \<Rightarrow> jsnum \<Rightarrow> jsnum" where
  "jmax a b = (if a = NaN \<or> b = NaN then NaN else if jlt a b then b else a)"

definition jmin :: "jsnum \<Rightarrow> jsnum \<Rightarrow> jsnum" where
  "jmin a b = (if a = NaN \<or> b = NaN then NaN else if jlt b a then b else a)"

text \<open>A number in a condition (\<^verbatim>\<open>x && ...\<close>, \<^verbatim>\<open>x || d\<close>) counts as false when it is 0 or NaN.\<close>

definition truthy :: "jsnum \<Rightarrow> bool" where
  "truthy x = (x \<noteq> Fin 0 \<and> x \<noteq> NaN)"

text \<open>\<^verbatim>\<open>Array.prototype.join\<close>.\<close>

fun join :: "string \<Rightarrow> string list \<Rightarrow> string" where
  "join sep [] = []"
| "join sep [x] = x"
| "join sep (x # y # ys) = x @ sep @ join sep (y # ys)"

text \<open>
  What the host runtime supplies: the decimal rendering of a number in a template
  string, \<^verbatim>\<open>toFixed\<close>, the identifiers drawn by \<^verbatim>\<open>uuidv4\<close> and the draws of
  \<^verbatim>\<open>Math.random\<close> (each indexed by how many were drawn before), and whether the
  database file can be opened and written when a statement is run against it (indexed
  by how many statements were run before).
\<close>

record host =
  numStr :: "jsnum \<Rightarrow> string"
  toFixed :: "nat \<Rightarrow> jsnum \<Rightarrow> string"
  uuidv4 :: "nat \<Rightarrow> string"
  random :: "nat \<Rightarrow> real"
  storeFails :: "nat \<Rightarrow> bool"

text \<open>
  Why a statement run against the store throws: the database cannot be opened or
  written, a primary key or unique index is violated, or a column declared
  \<^verbatim>\<open>NOT NULL\<close> is bound to NULL (which is how the driver binds NaN).
\<close>

datatype DbError = StoreUnavailable | UniqueConstraint | NotNullConstraint

section \<open>Shared types\<close>

record TakeProfitLevel =
  pctGain :: jsnum
  sellPct :: jsnum
  triggered :: bool
  orderId :: "string option"

datatype PositionStatus = OPEN | PARTIALLY_CLOSED | CLOSED

datatype OrderSide = BUY | SELL

datatype OrderStatus = PENDING | SUBMITTED | CONFIRMED | FAILED | EXPIRED | CANCELLED

datatype OrderSource =
  ENTRY_SIGNAL | TAKE_PROFIT | STOP_LOSS | TRAILING_STOP | TIME_STOP | MANUAL | KILL_SWITCH

record Position =
  pos_id :: string
  pos_tokenMint :: string
  pos_tokenSymbol :: string
  status :: PositionStatus
  entryPrice :: jsnum
  currentPrice :: jsnum
  entryAmountSol :: jsnum
  remainingTokens :: jsnum
  totalTokensBought :: jsnum
  totalTokensSold :: jsnum
  realizedPnlSol :: jsnum
  unrealizedPnlSol :: jsnum
  unrealizedPnlPct :: jsnum
  stopLossPrice :: jsnum
  takeProfitLevels :: "TakeProfitLevel list"
  trailingStopPct :: jsnum
  trailingStopPrice :: jsnum
  highWaterMark :: jsnum
  timeStopMinutes :: jsnum
  entryTime :: jsnum
  lastUpdateTime :: jsnum
  pos_isPaper :: bool
  pos_decisionCardId :: string
  exitReason :: "OrderSource option"

record RiskLimits =
  maxRiskPerTradePct :: jsnum
  lim_maxExposurePct :: jsnum
  lim_dailyMaxDrawdownPct :: jsnum
  lim_maxTradesPerHour :: jsnum
  lim_maxTradesPerDay :: jsnum
  lim_maxConsecutiveLosses :: jsnum
  lim_stopLossPct :: jsnum
  lim_takeProfitLevels :: "TakeProfitLevel list"
  lim_trailingStopPct :: jsnum
  lim_timeStopMinutes :: jsnum

record RiskState =
  equitySol :: jsnum
  startOfDayEquity :: jsnum
  todayPnlSol :: jsnum
  todayPnlPct :: jsnum
  todayDrawdownPct :: jsnum
  currentExposureSol :: jsnum
  currentExposurePct :: jsnum
  openPositionCount :: jsnum
  todayTradeCount :: jsnum
  hourTradeCount :: jsnum
  consecutiveLosses :: jsnum
  isHalted :: bool
  haltReason :: "string option"
  haltedAt :: "jsnum option"
  resumeAt :: "jsnum option"
  limits :: RiskLimits

datatype Severity = INFO | WARNING | CRITICAL

record Incident =
  inc_id :: string
  inc_timestamp :: jsnum
  severity :: Severity
  category :: string
  message :: string
  autoAction :: "string option"
  resolved :: bool

text \<open>The fields of the configuration that the decision and risk core reads.\<close>

datatype TradingMode = PAPER | LIVE

record BotConfig =
  mode :: TradingMode
  riskPerTradePct :: jsnum
  maxExposurePct :: jsnum
  dailyMaxDrawdownPct :: jsnum
  maxTradesPerHour :: jsnum
  maxTradesPerDay :: jsnum
  maxConsecutiveLosses :: jsnum
  stopLossPct :: jsnum
  cfg_takeProfitLevels :: "(jsnum \<times> jsnum) list"
  trailingStopPct_cfg :: jsnum
  timeStopMinutes_cfg :: jsnum
  paperStartingEquity :: jsnum
  paperSlippageMultiplier :: jsnum
  paperFailureRate :: jsnum
  paperLatencyMs :: jsnum

definition untriggered :: "jsnum \<times> jsnum \<Rightarrow> TakeProfitLevel" where
  "untriggered l = \<lparr>pctGain = fst l, sellPct = snd l, triggered = False, orderId = None\<rparr>"

definition DEFAULT_CONFIG :: BotConfig where
  "DEFAULT_CONFIG = \<lparr>
     mode = PAPER, riskPerTradePct = lit (2/10), maxExposurePct = Fin 1, dailyMaxDrawdownPct = Fin 2,
     maxTradesPerHour = Fin 3, maxTradesPerDay = Fin 10, maxConsecutiveLosses = Fin 3,
     stopLossPct = Fin 25,
     cfg_takeProfitLevels = [(Fin 50, Fin 30), (Fin 100, Fin 30)],
     trailingStopPct_cfg = Fin 15, timeStopMinutes_cfg = Fin 60,
     paperStartingEquity = Fin 10, paperSlippageMultiplier = Fin (3/2),
     paperFailureRate = lit (5/100), paperLatencyMs = Fin 500\<rparr>"

section \<open>Risk governor\<close>

text \<open>The module-level \<^verbatim>\<open>riskState\<close> as it is initialised when the module loads.\<close>

definition initialRiskState :: RiskState where
  "initialRiskState = \<lparr>
     equitySol = Fin 10, startOfDayEquity = Fin 10, todayPnlSol = Fin 0, todayPnlPct = Fin 0,
     todayDrawdownPct = Fin 0, currentExposureSol = Fin 0, currentExposurePct = Fin 0,
     openPositionCount = Fin 0, todayTradeCount = Fin 0, hourTradeCount = Fin 0,
     consecutiveLosses = Fin 0, isHalted = False,
     haltReason = None, haltedAt = None, resumeAt = None,
     limits = \<lparr>
       maxRiskPerTradePct = lit (2/10), lim_maxExposurePct = Fin 1,
       lim_dailyMaxDrawdownPct = Fin 2, lim_maxTradesPerHour = Fin 3,
       lim_maxTradesPerDay = Fin 10, lim_maxConsecutiveLosses = Fin 3,
       lim_stopLossPct = Fin 25,
       lim_takeProfitLevels = [untriggered (Fin 50, Fin 30), untriggered (Fin 100, Fin 30)],
       lim_trailingStopPct = Fin 15, lim_timeStopMinutes = Fin 60\<rparr>\<rparr>"

definition initRiskState :: "BotConfig \<Rightarrow> RiskState \<Rightarrow> RiskState" where
  "initRiskState config r = r\<lparr>
     equitySol := paperStartingEquity config,
     startOfDayEquity := paperStartingEquity config,
     limits := \<lparr>
       maxRiskPerTradePct = riskPerTradePct config,
       lim_maxExposurePct = maxExposurePct config,
       lim_dailyMaxDrawdownPct = dailyMaxDrawdownPct config,
       lim_maxTradesPerHour = maxTradesPerHour config,
       lim_maxTradesPerDay = maxTradesPerDay config,
       lim_maxConsecutiveLosses = maxConsecutiveLosses config,
       lim_stopLossPct = stopLossPct config,
       lim_takeProfitLevels = map untriggered (cfg_takeProfitLevels config),
       lim_trailingStopPct = trailingStopPct_cfg config,
       lim_timeStopMinutes = timeStopMinutes_cfg config\<rparr>\<rparr>"

definition updateEquity :: "jsnum \<Rightarrow> RiskState \<Rightarrow> RiskState" where
  "updateEquity sol r =
     (let pnlSol = jsub sol (startOfDayEquity r);
          pnlPct = jmul (jdiv pnlSol (startOfDayEquity r)) (Fin 100);
          r1 = r\<lparr>equitySol := sol, todayPnlSol := pnlSol, todayPnlPct := pnlPct\<rparr>
      in if jlt pnlPct (todayDrawdownPct r1) then r1\<lparr>todayDrawdownPct := pnlPct\<rparr> else r1)"

text \<open>
  The P&L percentage that one \<^verbatim>\<open>updateEquity\<close> call observes, and a run of such calls
  (the state between two daily resets is only written by them).
\<close>

definition pnlPctAt :: "RiskState \<Rightarrow> jsnum \<Rightarrow> jsnum" where
  "pnlPctAt r sol = jmul (jdiv (jsub sol (startOfDayEquity r)) (startOfDayEquity r)) (Fin 100)"

definition updates :: "jsnum list \<Rightarrow> RiskState \<Rightarrow> RiskState" where
  "updates sols r = foldl (\<lambda>s sol. updateEquity sol s) r sols"

text \<open>
  What the four store queries of \<^verbatim>\<open>refreshRiskCounters\<close> answer. A query that throws is
  \<^const>\<open>None\<close>: the \<^verbatim>\<open>try\<close> block is left there, with the assignments made so far kept.
\<close>

record StoreQueries =
  getOpenPositions :: "Position list option"
  getTodayTradeCount :: "jsnum option"
  getHourTradeCount :: "jsnum option"
  getConsecutiveLosses :: "jsnum option"

definition refreshRiskCounters :: "StoreQueries \<Rightarrow> RiskState \<Rightarrow> RiskState" where
  "refreshRiskCounters db r =
     (case getOpenPositions db of None \<Rightarrow> r | Some positions \<Rightarrow>
       (let exposure = foldl (\<lambda>s p. jadd s (entryAmountSol p)) (Fin 0) positions;
            r1 = r\<lparr>openPositionCount := Fin (real (length positions)),
                    currentExposureSol := exposure,
                    currentExposurePct :=
                      (if jgt (equitySol r) (Fin 0)
                       then jmul (jdiv exposure (equitySol r)) (Fin 100) else Fin 0)\<rparr>
        in (case getTodayTradeCount db of None \<Rightarrow> r1 | Some today \<Rightarrow>
             (let r2 = r1\<lparr>todayTradeCount := today\<rparr>
              in (case getHourTradeCount db of None \<Rightarrow> r2 | Some hour \<Rightarrow>
                   (let r3 = r2\<lparr>hourTradeCount := hour\<rparr>
                    in (case getConsecutiveLosses db of None \<Rightarrow> r3
                        | Some losses \<Rightarrow> r3\<lparr>consecutiveLosses := losses\<rparr>)))))))"

record RiskCheckDetail =
  check :: string
  passed :: bool
  det_value :: string
  det_limit :: string

record RiskCheckResult =
  allowed :: bool
  reason :: string
  details :: "RiskCheckDetail list"

definition strOpt :: "string option \<Rightarrow> string" where
  "strOpt s = (case s of None \<Rightarrow> ''undefined'' | Some t \<Rightarrow> t)"

definition newExposurePct :: "RiskState \<Rightarrow> jsnum \<Rightarrow> jsnum" where
  "newExposurePct r tradeSizeSol =
     jmul (jdiv (jadd (currentExposureSol r) tradeSizeSol) (equitySol r)) (Fin 100)"

definition tradeSizePct :: "RiskState \<Rightarrow> jsnum \<Rightarrow> jsnum" where
  "tradeSizePct r tradeSizeSol = jmul (jdiv tradeSizeSol (equitySol r)) (Fin 100)"

definition riskChecks :: "host \<Rightarrow> RiskState \<Rightarrow> jsnum \<Rightarrow> BotConfig \<Rightarrow> RiskCheckDetail list" where
  "riskChecks h r tradeSizeSol config = [
     \<lparr>check = ''Not halted'', passed = \<not> isHalted r,
      det_value = (if isHalted r then ''Halted: '' @ strOpt (haltReason r) else ''Active''),
      det_limit = ''Active''\<rparr>,
     \<lparr>check = ''Daily drawdown'',
      passed = jlt (jabs (todayDrawdownPct r)) (dailyMaxDrawdownPct config),
      det_value = toFixed h 2 (todayDrawdownPct r) @ ''%'',
      det_limit = numStr h (dailyMaxDrawdownPct config) @ ''%''\<rparr>,
     \<lparr>check = ''Exposure limit'',
      passed = jle (newExposurePct r tradeSizeSol) (maxExposurePct config),
      det_value = toFixed h 2 (newExposurePct r tradeSizeSol) @ ''%'',
      det_limit = numStr h (maxExposurePct config) @ ''%''\<rparr>,
     \<lparr>check = ''Trade size'',
      passed = jle (tradeSizePct r tradeSizeSol) (riskPerTradePct config),
      det_value = toFixed h 3 (tradeSizePct r tradeSizeSol) @ ''%'',
      det_limit = numStr h (riskPerTradePct config) @ ''%''\<rparr>,
     \<lparr>check = ''Hourly trades'',
      passed = jlt (hourTradeCount r) (maxTradesPerHour config),
      det_value = numStr h (hourTradeCount r),
      det_limit = numStr h (maxTradesPerHour config)\<rparr>,
     \<lparr>check = ''Daily trades'',
      passed = jlt (todayTradeCount r) (maxTradesPerDay config),
      det_value = numStr h (todayTradeCount r),
      det_limit = numStr h (maxTradesPerDay config)\<rparr>,
     \<lparr>check = ''Consec. losses'',
      passed = jlt (consecutiveLosses r) (maxConsecutiveLosses config),
      det_value = numStr h (consecutiveLosses r),
      det_limit = numStr h (maxConsecutiveLosses config)\<rparr>]"

text \<open>
  \<^verbatim>\<open>checkPreTradeRisk\<close> first refreshes the counters in the module state, so it returns
  the refreshed state beside its result.
\<close>

definition checkPreTradeRisk ::
  "host \<Rightarrow> StoreQueries \<Rightarrow> jsnum \<Rightarrow> BotConfig \<Rightarrow> RiskState \<Rightarrow> RiskCheckResult \<times> RiskState" where
  "checkPreTradeRisk h db tradeSizeSol config r0 =
     (let r = refreshRiskCounters db r0;
          ds = riskChecks h r tradeSizeSol config;
          allPassed = list_all passed ds;
          failed = filter (\<lambda>d. \<not> passed d) ds
      in (\<lparr>allowed = allPassed,
           reason = (if allPassed then ''All risk checks passed''
                     else ''Blocked: '' @ join '', '' (map check failed)),
           details = ds\<rparr>, r))"

text \<open>
  The governor as the kill switch sees it: the module state, the incident table of the
  store, how many identifiers were drawn and how many statements were run against the
  store so far. \<^verbatim>\<open>Date.now()\<close> is the argument \<open>now\<close>; the calls within one operation
  read the same instant. An operation that throws is \<^const>\<open>Inl\<close>, beside the state as
  the exception leaves it.
\<close>

record Governor =
  riskState :: RiskState
  incidentTable :: "Incident list"
  uuidsDrawn :: nat
  statementsRun :: nat

text \<open>
  \<^verbatim>\<open>saveIncident\<close> is a plain insert: it throws when the store cannot be written, when
  the timestamp is NaN (the column is \<^verbatim>\<open>NOT NULL\<close>) and when the id is already in the
  table (the primary key).
\<close>

definition saveIncident :: "host \<Rightarrow> Incident \<Rightarrow> Governor \<Rightarrow> (DbError + unit) \<times> Governor" where
  "saveIncident h i g =
     (let g1 = g\<lparr>statementsRun := Suc (statementsRun g)\<rparr>
      in if storeFails h (statementsRun g) then (Inl StoreUnavailable, g1)
         else if inc_timestamp i = NaN then (Inl NotNullConstraint, g1)
         else if inc_id i \<in> set (map inc_id (incidentTable g)) then (Inl UniqueConstraint, g1)
         else (Inr (), g1\<lparr>incidentTable := incidentTable g @ [i]\<rparr>))"

definition killIncident :: "host \<Rightarrow> jsnum \<Rightarrow> string \<Rightarrow> nat \<Rightarrow> Incident" where
  "killIncident h now why n =
     \<lparr>inc_id = uuidv4 h n, inc_timestamp = now, severity = CRITICAL,
      category = ''KILL_SWITCH'', message = ''Kill switch: '' @ why,
      autoAction = Some ''All new orders blocked'', resolved = False\<rparr>"

definition activateKillSwitch ::
  "host \<Rightarrow> jsnum \<Rightarrow> string \<Rightarrow> Governor \<Rightarrow> (DbError + unit) \<times> Governor" where
  "activateKillSwitch h now why g =
     (let r = (riskState g)\<lparr>isHalted := True, haltReason := Some why, haltedAt := Some now\<rparr>;
          g1 = g\<lparr>riskState := r, uuidsDrawn := Suc (uuidsDrawn g)\<rparr>
      in saveIncident h (killIncident h now why (uuidsDrawn g)) g1)"

text \<open>
  The store accepts the incident that an activation at \<open>now\<close> inserts: it can be
  written, the timestamp is a number and the identifier drawn is not in the table.
\<close>

definition incidentAccepted :: "host \<Rightarrow> jsnum \<Rightarrow> Governor \<Rightarrow> bool" where
  "incidentAccepted h now g =
     (\<not> storeFails h (statementsRun g) \<and> now \<noteq> NaN
      \<and> uuidv4 h (uuidsDrawn g) \<notin> set (map inc_id (incidentTable g)))"

definition deactivateKillSwitch :: "RiskState \<Rightarrow> RiskState" where
  "deactivateKillSwitch r = r\<lparr>isHalted := False, haltReason := None, haltedAt := None\<rparr>"

text \<open>
  The two \<^verbatim>\<open>if\<close> statements of \<^verbatim>\<open>runAutoHaltChecks\<close>, each returning the incidents it
  pushes. When \<^verbatim>\<open>activateKillSwitch\<close> throws, the rest of the statement is not run.
\<close>

definition drawdownHalt ::
  "host \<Rightarrow> jsnum \<Rightarrow> BotConfig \<Rightarrow> Governor \<Rightarrow> (DbError + Incident list) \<times> Governor" where
  "drawdownHalt h now config g =
     (let r = riskState g
      in if jge (jabs (todayDrawdownPct r)) (dailyMaxDrawdownPct config) \<and> \<not> isHalted r
         then
           let msg = ''Daily drawdown: '' @ toFixed h 2 (todayDrawdownPct r) @ ''% (limit: ''
                       @ numStr h (dailyMaxDrawdownPct config) @ ''%)''
           in (case activateKillSwitch h now msg g of
                 (Inl e, g1) \<Rightarrow> (Inl e, g1)
               | (Inr ok, g1) \<Rightarrow>
                   (Inr [\<lparr>inc_id = uuidv4 h (uuidsDrawn g1), inc_timestamp = now,
                          severity = CRITICAL, category = ''DAILY_DRAWDOWN'', message = msg,
                          autoAction = Some ''Trading halted for 24h'', resolved = False\<rparr>],
                    g1\<lparr>riskState :=
                         (riskState g1)\<lparr>resumeAt := Some (jadd now (Fin (24 * 3600000)))\<rparr>,
                       uuidsDrawn := Suc (uuidsDrawn g1)\<rparr>))
         else (Inr [], g))"

definition lossesHalt ::
  "host \<Rightarrow> jsnum \<Rightarrow> BotConfig \<Rightarrow> Governor \<Rightarrow> (DbError + Incident list) \<times> Governor" where
  "lossesHalt h now config g =
     (let r = riskState g
      in if jge (consecutiveLosses r) (maxConsecutiveLosses config) \<and> \<not> isHalted r
         then
           let msg = numStr h (consecutiveLosses r) @ '' consecutive losses''
           in (case activateKillSwitch h now msg g of
                 (Inl e, g1) \<Rightarrow> (Inl e, g1)
               | (Inr ok, g1) \<Rightarrow>
                   (Inr [\<lparr>inc_id = uuidv4 h (uuidsDrawn g1), inc_timestamp = now,
                          severity = WARNING, category = ''CONSECUTIVE_LOSSES'', message = msg,
                          autoAction = Some ''Trading paused'', resolved = False\<rparr>],
                    g1\<lparr>uuidsDrawn := Suc (uuidsDrawn g1)\<rparr>))
         else (Inr [], g))"

text \<open>
  \<^verbatim>\<open>runAutoHaltChecks\<close> refreshes the counters and runs the two statements one after
  the other; the incidents it returns are those pushed by both.
\<close>

definition runAutoHaltChecks ::
  "host \<Rightarrow> StoreQueries \<Rightarrow> jsnum \<Rightarrow> BotConfig \<Rightarrow> Governor
     \<Rightarrow> (DbError + Incident list) \<times> Governor" where
  "runAutoHaltChecks h db now config g =
     (case drawdownHalt h now config (g\<lparr>riskState := refreshRiskCounters db (riskState g)\<rparr>) of
        (Inl e, g1) \<Rightarrow> (Inl e, g1)
      | (Inr first, g1) \<Rightarrow>
          (case lossesHalt h now config g1 of
             (Inl e, g2) \<Rightarrow> (Inl e, g2)
           | (Inr second, g2) \<Rightarrow> (Inr (first @ second), g2)))"

definition resetDailyCounters :: "jsnum \<Rightarrow> RiskState \<Rightarrow> RiskState" where
  "resetDailyCounters now r =
     (let r1 = r\<lparr>startOfDayEquity := equitySol r, todayPnlSol := Fin 0, todayPnlPct := Fin 0,
                  todayDrawdownPct := Fin 0, todayTradeCount := Fin 0\<rparr>
      in if (case resumeAt r1 of None \<Rightarrow> False | Some t \<Rightarrow> truthy t \<and> jge now t)
         then deactivateKillSwitch r1 else r1)"

section \<open>Exit evaluator\<close>

record ExitSignal =
  sig_type :: OrderSource
  sig_sellPct :: jsnum
  sig_reason :: string
  sig_price :: jsnum

text \<open>The \<^verbatim>\<open>for\<close> loop over the take-profit levels, left at the first level that fires.\<close>

fun takeProfitLoop :: "host \<Rightarrow> jsnum \<Rightarrow> jsnum \<Rightarrow> TakeProfitLevel list \<Rightarrow> ExitSignal option" where
  "takeProfitLoop h pnlPct curPrice [] = None"
| "takeProfitLoop h pnlPct curPrice (level # levels) =
     (if \<not> triggered level \<and> jge pnlPct (pctGain level)
      then Some \<lparr>sig_type = TAKE_PROFIT, sig_sellPct = sellPct level,
                 sig_reason = ''Take profit at +'' @ numStr h (pctGain level) @ ''% (selling ''
                                @ numStr h (sellPct level) @ ''%)'',
                 sig_price = curPrice\<rparr>
      else takeProfitLoop h pnlPct curPrice levels)"

definition pnlPctOf :: "Position \<Rightarrow> jsnum \<Rightarrow> jsnum" where
  "pnlPctOf position curPrice =
     jmul (jdiv (jsub curPrice (entryPrice position)) (entryPrice position)) (Fin 100)"

definition trailingStopPriceOf :: "Position \<Rightarrow> BotConfig \<Rightarrow> jsnum" where
  "trailingStopPriceOf position config =
     jmul (highWaterMark position) (jsub (Fin 1) (jdiv (trailingStopPct_cfg config) (Fin 100)))"

definition minutesHeldOf :: "jsnum \<Rightarrow> Position \<Rightarrow> jsnum" where
  "minutesHeldOf now position = jdiv (jsub now (entryTime position)) (Fin 60000)"

definition checkExitConditions ::
  "host \<Rightarrow> jsnum \<Rightarrow> Position \<Rightarrow> jsnum \<Rightarrow> BotConfig \<Rightarrow> ExitSignal option" where
  "checkExitConditions h now position curPrice config =
     (let pnlPct = pnlPctOf position curPrice
      in if jle pnlPct (jneg (stopLossPct config))
         then Some \<lparr>sig_type = STOP_LOSS, sig_sellPct = Fin 100,
                    sig_reason = ''Stop-loss triggered at '' @ toFixed h 1 pnlPct @ ''% (limit: -''
                                   @ numStr h (stopLossPct config) @ ''%)'',
                    sig_price = curPrice\<rparr>
         else case takeProfitLoop h pnlPct curPrice (takeProfitLevels position) of
           Some s \<Rightarrow> Some s
         | None \<Rightarrow>
           let trailPrice = trailingStopPriceOf position config
           in if jle curPrice trailPrice \<and> jgt pnlPct (Fin 0)
              then Some \<lparr>sig_type = TRAILING_STOP, sig_sellPct = Fin 100,
                         sig_reason = ''Trailing stop: price '' @ toFixed h 8 curPrice
                                        @ '' fell below '' @ toFixed h 8 trailPrice @ '' (''
                                        @ numStr h (trailingStopPct_cfg config) @ ''% from high)'',
                         sig_price = curPrice\<rparr>
              else
                let minutesHeld = minutesHeldOf now position
                in if jge minutesHeld (timeStopMinutes_cfg config) \<and> jlt pnlPct (Fin 10)
                   then Some \<lparr>sig_type = TIME_STOP, sig_sellPct = Fin 100,
                              sig_reason = ''Time stop: held '' @ toFixed h 0 minutesHeld
                                             @ '' min with only '' @ toFixed h 1 pnlPct @ ''% gain'',
                              sig_price = curPrice\<rparr>
                   else None)"

section \<open>Paper trading engine\<close>

datatype Route = JUPITER | RAYDIUM_DIRECT | PUMP_BONDING_CURVE


record Order =
  ord_id :: string
  idempotencyKey :: string
  tokenMint :: string
  tokenSymbol :: string
  side :: OrderSide
  source :: OrderSource
  amountSol :: jsnum
  amountTokens :: jsnum
  estimatedPrice :: jsnum
  executedPrice :: "jsnum option"
  slippageBps :: "jsnum option"
  feeSol :: "jsnum option"
  ord_status :: OrderStatus
  txSignature :: "string option"
  isPaper :: bool
  decisionCardId :: "string option"
  createdAt :: jsnum
  updatedAt :: jsnum
  retryCount :: jsnum
  errorMessage :: "string option"

text \<open>A call succeeded when it returned an order that the simulation confirmed.\<close>

definition confirmed :: "DbError + Order \<Rightarrow> bool" where
  "confirmed res = (case res of Inl e \<Rightarrow> False | Inr ord \<Rightarrow> ord_status ord = CONFIRMED)"

text \<open>
  The state the engine works on: the governor's module state, the order and position
  tables of the store, the clock read by \<^verbatim>\<open>Date.now()\<close>, and how many identifiers and
  random numbers were drawn and how many statements were run against the store. One call runs alone: what other tasks do while the
  call waits is not part of the model, and the wait itself moves the clock by the
  delay asked of \<^verbatim>\<open>setTimeout\<close>.
\<close>

record World =
  risk :: RiskState
  orderTable :: "Order list"
  positionTable :: "Position list"
  clock :: jsnum
  uuidsUsed :: nat
  randomsUsed :: nat
  statementsDone :: nat

text \<open>\<^verbatim>\<open>x || null\<close> as the store statements bind optional columns.\<close>

definition numOrNull :: "jsnum option \<Rightarrow> jsnum option" where
  "numOrNull x = (case x of None \<Rightarrow> None | Some v \<Rightarrow> if truthy v then Some v else None)"

definition strOrNull :: "string option \<Rightarrow> string option" where
  "strOrNull x = (case x of None \<Rightarrow> None | Some v \<Rightarrow> if v = [] then None else Some v)"

definition orderRow :: "Order \<Rightarrow> Order" where
  "orderRow ord = ord\<lparr>executedPrice := numOrNull (executedPrice ord),
                      slippageBps := numOrNull (slippageBps ord),
                      feeSol := numOrNull (feeSol ord),
                      txSignature := strOrNull (txSignature ord),
                      decisionCardId := strOrNull (decisionCardId ord),
                      errorMessage := strOrNull (errorMessage ord)\<rparr>"

text \<open>
  \<^verbatim>\<open>saveOrder\<close>: an insert that updates the row of the same id. It throws when the
  store cannot be written, when a number bound to a \<^verbatim>\<open>NOT NULL\<close> column is NaN, and
  when another row holds the idempotency key (the table's unique index).
\<close>

definition saveOrder :: "host \<Rightarrow> Order \<Rightarrow> World \<Rightarrow> (DbError + unit) \<times> World" where
  "saveOrder h ord w =
     (let new = orderRow ord; tbl = orderTable w;
          w1 = w\<lparr>statementsDone := Suc (statementsDone w)\<rparr>
      in if storeFails h (statementsDone w) then (Inl StoreUnavailable, w1)
         else if NaN \<in> set [amountSol ord, amountTokens ord, estimatedPrice ord,
                              createdAt ord, updatedAt ord, retryCount ord]
         then (Inl NotNullConstraint, w1)
         else if list_ex (\<lambda>row. idempotencyKey row = idempotencyKey ord
                                   \<and> ord_id row \<noteq> ord_id ord) tbl
         then (Inl UniqueConstraint, w1)
         else if ord_id ord \<in> set (map ord_id tbl)
         then (Inr (),
               w1\<lparr>orderTable :=
                    map (\<lambda>row. if ord_id row = ord_id ord
                                then row\<lparr>ord_status := ord_status new,
                                         executedPrice := executedPrice new,
                                         slippageBps := slippageBps new, feeSol := feeSol new,
                                         txSignature := txSignature new,
                                         updatedAt := updatedAt new,
                                         retryCount := retryCount new,
                                         errorMessage := errorMessage new\<rparr>
                                else row) tbl\<rparr>)
         else (Inr (), w1\<lparr>orderTable := tbl @ [new]\<rparr>))"

text \<open>
  \<^verbatim>\<open>savePosition\<close>: an insert that updates the row of the same id. It throws when the
  store cannot be written and when a number bound to a \<^verbatim>\<open>NOT NULL\<close> column is NaN.
\<close>

definition savePosition :: "host \<Rightarrow> Position \<Rightarrow> World \<Rightarrow> (DbError + unit) \<times> World" where
  "savePosition h pos w =
     (let tbl = positionTable w;
          w1 = w\<lparr>statementsDone := Suc (statementsDone w)\<rparr>
      in if storeFails h (statementsDone w) then (Inl StoreUnavailable, w1)
         else if NaN \<in> set [entryPrice pos, currentPrice pos, entryAmountSol pos,
                              remainingTokens pos, totalTokensBought pos, totalTokensSold pos,
                              realizedPnlSol pos, unrealizedPnlSol pos, unrealizedPnlPct pos,
                              stopLossPrice pos, trailingStopPct pos, trailingStopPrice pos,
                              highWaterMark pos, timeStopMinutes pos, entryTime pos,
                              lastUpdateTime pos]
         then (Inl NotNullConstraint, w1)
         else if pos_id pos \<in> set (map pos_id tbl)
         then (Inr (),
               w1\<lparr>positionTable :=
                    map (\<lambda>row. if pos_id row = pos_id pos
                                then row\<lparr>status := status pos, currentPrice := currentPrice pos,
                                         remainingTokens := remainingTokens pos,
                                         totalTokensSold := totalTokensSold pos,
                                         realizedPnlSol := realizedPnlSol pos,
                                         unrealizedPnlSol := unrealizedPnlSol pos,
                                         unrealizedPnlPct := unrealizedPnlPct pos,
                                         trailingStopPrice := trailingStopPrice pos,
                                         highWaterMark := highWaterMark pos,
                                         lastUpdateTime := lastUpdateTime pos,
                                         takeProfitLevels := takeProfitLevels pos,
                                         exitReason := exitReason pos\<rparr>
                                else row) tbl\<rparr>)
         else (Inr (), w1\<lparr>positionTable := tbl @ [pos]\<rparr>))"

definition nextRandom :: "host \<Rightarrow> World \<Rightarrow> jsnum \<times> World" where
  "nextRandom h w = (Fin (random h (randomsUsed w)), w\<lparr>randomsUsed := Suc (randomsUsed w)\<rparr>)"

definition nextUuid :: "host \<Rightarrow> World \<Rightarrow> string \<times> World" where
  "nextUuid h w = (uuidv4 h (uuidsUsed w), w\<lparr>uuidsUsed := Suc (uuidsUsed w)\<rparr>)"

definition simulateLatency :: "host \<Rightarrow> BotConfig \<Rightarrow> World \<Rightarrow> World" where
  "simulateLatency h config w =
     (let (u, w1) = nextRandom h w;
          jitter = jmul (paperLatencyMs config) (jadd (Fin (1/2)) u)
      in w1\<lparr>clock := jadd (clock w1) jitter\<rparr>)"




text \<open>
  \<^verbatim>\<open>executeSell\<close> updates the position object it is given; the position is returned
  beside the result as the call leaves it, also when the call throws.
\<close>

definition executeSell ::
  "host \<Rightarrow> BotConfig \<Rightarrow> Position \<Rightarrow> jsnum \<Rightarrow> OrderSource \<Rightarrow> jsnum \<Rightarrow> World
     \<Rightarrow> (DbError + Order) \<times> Position \<times> World" where
  "executeSell h config position pct src curPrice w0 =
     (let (oid, w1) = nextUuid h w0;
          key = ''paper-sell-'' @ pos_tokenMint position @ ''-'' @ numStr h (clock w1);
          w2 = simulateLatency h config w1;
          (u, w3) = nextRandom h w2
      in if jlt u (jmul (paperFailureRate config) (Fin (1/2)))
         then
           let ord = \<lparr>ord_id = oid, idempotencyKey = key, tokenMint = pos_tokenMint position,
                      tokenSymbol = pos_tokenSymbol position, side = SELL, source = src,
                      amountSol = Fin 0, amountTokens = Fin 0, estimatedPrice = curPrice,
                      executedPrice = None, slippageBps = None, feeSol = None,
                      ord_status = FAILED, txSignature = None, isPaper = True,
                      decisionCardId = Some (pos_decisionCardId position),
                      createdAt = clock w3, updatedAt = clock w3, retryCount = Fin 0,
                      errorMessage = Some ''Simulated sell failure''\<rparr>
           in (case saveOrder h ord w3 of
                 (Inl e, w4) \<Rightarrow> (Inl e, position, w4)
               | (Inr ok, w4) \<Rightarrow> (Inr ord, position, w4))
         else
           let tokensToSell = jmul (remainingTokens position) (jdiv pct (Fin 100));
               (v, w4) = nextRandom h w3;
               slip = jround (jmul (jmul (Fin 50) (paperSlippageMultiplier config))
                                   (jadd (lit (8/10)) (jmul v (lit (4/10)))));
               execPrice = jmul curPrice (jsub (Fin 1) (jdiv slip (Fin 10000)));
               solReceived = jmul tokensToSell execPrice;
               fee = jmul solReceived (lit (3/1000));
               netSol = jsub solReceived fee;
               ord = \<lparr>ord_id = oid, idempotencyKey = key, tokenMint = pos_tokenMint position,
                      tokenSymbol = pos_tokenSymbol position, side = SELL, source = src,
                      amountSol = netSol, amountTokens = tokensToSell,
                      estimatedPrice = curPrice, executedPrice = Some execPrice,
                      slippageBps = Some slip, feeSol = Some fee, ord_status = CONFIRMED,
                      txSignature = Some (''paper_'' @ take 16 oid), isPaper = True,
                      decisionCardId = Some (pos_decisionCardId position),
                      createdAt = clock w4, updatedAt = clock w4, retryCount = Fin 0,
                      errorMessage = None\<rparr>
           in (case saveOrder h ord w4 of
                 (Inl e, w5) \<Rightarrow> (Inl e, position, w5)
               | (Inr ok, w5) \<Rightarrow>
                   let p1 = position\<lparr>
                              remainingTokens := jsub (remainingTokens position) tokensToSell,
                              totalTokensSold := jadd (totalTokensSold position) tokensToSell,
                              realizedPnlSol :=
                                jadd (realizedPnlSol position)
                                     (jsub netSol (jmul tokensToSell (entryPrice position))),
                              lastUpdateTime := clock w5\<rparr>;
                       p2 = (if jle (remainingTokens p1) (lit (1/100))
                             then p1\<lparr>status := CLOSED, remainingTokens := Fin 0,
                                     exitReason := Some src\<rparr>
                             else p1\<lparr>status := PARTIALLY_CLOSED\<rparr>)
                   in (case savePosition h p2 w5 of
                         (Inl e, w6) \<Rightarrow> (Inl e, p2, w6)
                       | (Inr ok, w6) \<Rightarrow>
                           (Inr ord, p2,
                            w6\<lparr>risk := updateEquity (jadd (equitySol (risk w6)) netSol)
                                                     (risk w6)\<rparr>))))"

section \<open>Position monitor\<close>

text \<open>
  The body of the orchestrator's five-second loop for one open position: it moves the
  paper price, raises the high-water mark, asks the exit evaluator and, on a signal in
  paper mode, sells.
\<close>

definition monitorPosition ::
  "host \<Rightarrow> BotConfig \<Rightarrow> Position \<Rightarrow> World \<Rightarrow> (DbError + Order) option \<times> Position \<times> World" where
  "monitorPosition h config pos w0 =
     (let (u, w1) = nextRandom h w0;
          priceChange = jadd (Fin 1) (jmul (jsub u (lit (45/100))) (lit (1/10)));
          curPrice = jmul (currentPrice pos) priceChange;
          p1 = (if jgt curPrice (highWaterMark pos) then pos\<lparr>highWaterMark := curPrice\<rparr> else pos);
          p2 = p1\<lparr>currentPrice := curPrice,
                  unrealizedPnlPct :=
                    jmul (jdiv (jsub curPrice (entryPrice p1)) (entryPrice p1)) (Fin 100),
                  unrealizedPnlSol :=
                    jmul (remainingTokens p1) (jsub curPrice (entryPrice p1))\<rparr>
      in case checkExitConditions h (clock w1) p2 curPrice config of
           None \<Rightarrow> (None, p2, w1)
         | Some s \<Rightarrow>
             if mode config = PAPER
             then (let (res, p3, w2) = executeSell h config p2 (sig_sellPct s) (sig_type s) curPrice w1
                   in (Some res, p3, w2))
             else (None, p2, w1))"

section \<open>Feature aggregator\<close>

datatype EventType = EV_LAUNCH | EV_BUY | EV_SELL | EV_GRADUATION

record PumpEvent =
  ev_type :: EventType
  ev_tokenMint :: string
  wallet :: string
  ev_amountSol :: jsnum
  timestamp :: jsnum

record Buffers =
  eventBuffer :: "PumpEvent list"
  tokenEvents :: "string \<rightharpoonup> PumpEvent list"
  rpcLatencyHistory :: "jsnum list"
  recentFailures :: jsnum
  recentAttempts :: jsnum

definition EVENT_WINDOW_MS :: jsnum where
  "EVENT_WINDOW_MS = Fin (5 * 60 * 1000)"

text \<open>Events older than twice the window before now are due for pruning.\<close>

definition cutoffAt :: "jsnum \<Rightarrow> jsnum" where
  "cutoffAt now = jsub now (jmul EVENT_WINDOW_MS (Fin 2))"

text \<open>The pruning loop: \<^verbatim>\<open>shift()\<close> while the first event is older than the cutoff.\<close>

fun prune :: "jsnum \<Rightarrow> PumpEvent list \<Rightarrow> PumpEvent list" where
  "prune cutoff [] = []"
| "prune cutoff (e # es) = (if jlt (timestamp e) cutoff then prune cutoff es else e # es)"

definition recordEvent :: "jsnum \<Rightarrow> PumpEvent \<Rightarrow> Buffers \<Rightarrow> Buffers" where
  "recordEvent now event b =
     (let buf = eventBuffer b @ [event];
          perToken = (case tokenEvents b (ev_tokenMint event) of None \<Rightarrow> [] | Some es \<Rightarrow> es);
          cutoff = cutoffAt now
      in b\<lparr>eventBuffer := prune cutoff buf,
           tokenEvents := (tokenEvents b)(ev_tokenMint event \<mapsto> perToken @ [event])\<rparr>)"

definition recordRpcLatency :: "jsnum \<Rightarrow> Buffers \<Rightarrow> Buffers" where
  "recordRpcLatency ms b =
     (let hist = rpcLatencyHistory b @ [ms]
      in b\<lparr>rpcLatencyHistory := (if 100 < length hist then tl hist else hist)\<rparr>)"

datatype ExecutionRisk = LOW | MEDIUM | HIGH

record ExecutionRiskFeatures =
  liquidityDepthSol :: jsnum
  spreadBps :: jsnum
  estimatedSlippage :: jsnum
  rpcLatencyMs :: jsnum
  recentFailureRate :: jsnum
  executionRisk :: ExecutionRisk
  exr_reason :: string

definition computeExecutionRiskFeatures ::
  "host \<Rightarrow> jsnum \<Rightarrow> string \<Rightarrow> jsnum \<Rightarrow> Buffers \<Rightarrow> ExecutionRiskFeatures" where
  "computeExecutionRiskFeatures h now mint orderSizeSol b =
     (let events = (case tokenEvents b mint of None \<Rightarrow> [] | Some es \<Rightarrow> es);
          recentBuys =
            foldl (\<lambda>s e. jadd s (ev_amountSol e)) (Fin 0)
              (filter (\<lambda>e. ev_type e = EV_BUY \<and> jgt (timestamp e) (jsub now (Fin 60000))) events);
          liquidity = jmax (jmul recentBuys (Fin 5)) (Fin 1);
          spread = jmax (Fin 50) (jmin (Fin 1000) (jdiv (Fin 5000) liquidity));
          sizeRatio = jdiv orderSizeSol liquidity;
          slip = jround (jmul sizeRatio (Fin 1000));
          avgLatency =
            (if 0 < length (rpcLatencyHistory b)
             then jdiv (foldl jadd (Fin 0) (rpcLatencyHistory b))
                       (Fin (real (length (rpcLatencyHistory b))))
             else Fin 200);
          failureRate =
            (if jgt (recentAttempts b) (Fin 0)
             then jdiv (recentFailures b) (recentAttempts b) else Fin 0);
          verdict =
            (if jgt slip (Fin 500) \<or> jgt avgLatency (Fin 2000) \<or> jgt failureRate (lit (2/10))
             then (HIGH,
                   ''High execution risk: '' @ numStr h slip @ ''bps slippage, ''
                     @ toFixed h 0 avgLatency @ ''ms latency, ''
                     @ toFixed h 0 (jmul failureRate (Fin 100)) @ ''% failure rate'')
             else if jgt slip (Fin 200) \<or> jgt avgLatency (Fin 1000)
                       \<or> jgt failureRate (lit (1/10))
             then (MEDIUM,
                   ''Moderate execution risk: '' @ numStr h slip @ ''bps slippage, ''
                     @ toFixed h 0 avgLatency @ ''ms latency'')
             else (LOW,
                   ''Good execution conditions: '' @ numStr h slip @ ''bps slippage, ''
                     @ toFixed h 0 avgLatency @ ''ms latency''))
      in \<lparr>liquidityDepthSol = liquidity, spreadBps = spread, estimatedSlippage = slip,
          rpcLatencyMs = avgLatency, recentFailureRate = failureRate,
          executionRisk = fst verdict, exr_reason = snd verdict\<rparr>)"

section \<open>Sample inputs\<close>

text \<open>Concrete hosts, stores and states at which the properties below are exercised.\<close>

definition testHost :: host where
  "testHost = \<lparr>numStr = (\<lambda>_. ''n''), toFixed = (\<lambda>_ _. ''n''), uuidv4 = (\<lambda>n. replicate (Suc n) CHR ''u''), random = (\<lambda>_. 0),
     storeFails = (\<lambda>_. False)\<rparr>"

definition emptyStore :: StoreQueries where
  "emptyStore = \<lparr>getOpenPositions = Some [], getTodayTradeCount = Some (Fin 0),
     getHourTradeCount = Some (Fin 0), getConsecutiveLosses = Some (Fin 0)\<rparr>"

definition lossyStore :: StoreQueries where
  "lossyStore = \<lparr>getOpenPositions = Some [], getTodayTradeCount = Some (Fin 0),
     getHourTradeCount = Some (Fin 0), getConsecutiveLosses = Some (Fin 3)\<rparr>"

definition offlineStore :: StoreQueries where
  "offlineStore = \<lparr>getOpenPositions = None, getTodayTradeCount = None,
     getHourTradeCount = None, getConsecutiveLosses = None\<rparr>"

definition blockedState :: RiskState where
  "blockedState = initialRiskState\<lparr>todayDrawdownPct := Fin (- 5/2), currentExposureSol := Fin 1,
     todayTradeCount := Fin 10, hourTradeCount := Fin 3, consecutiveLosses := Fin 3,
     isHalted := True, haltReason := Some ''test''\<rparr>"

definition governorOf :: "RiskState \<Rightarrow> Governor" where
  "governorOf r = \<lparr>riskState = r, incidentTable = [], uuidsDrawn = 0, statementsRun = 0\<rparr>"

definition drawdownBreached :: RiskState where
  "drawdownBreached = initialRiskState\<lparr>todayDrawdownPct := Fin (- 5/2)\<rparr>"

definition lossesBreached :: RiskState where
  "lossesBreached = initialRiskState\<lparr>consecutiveLosses := Fin 3\<rparr>"

definition bothBreached :: RiskState where
  "bothBreached = initialRiskState\<lparr>todayDrawdownPct := Fin (- 5/2), consecutiveLosses := Fin 3\<rparr>"

definition samplePosition :: "jsnum \<Rightarrow> jsnum \<Rightarrow> jsnum \<Rightarrow> Position" where
  "samplePosition entry high entered =
     \<lparr>pos_id = ''p1'', pos_tokenMint = ''MintA'', pos_tokenSymbol = ''MintA'', status = OPEN,
      entryPrice = entry, currentPrice = entry, entryAmountSol = lit (2/100),
      remainingTokens = Fin 100, totalTokensBought = Fin 100, totalTokensSold = Fin 0,
      realizedPnlSol = Fin 0, unrealizedPnlSol = Fin 0, unrealizedPnlPct = Fin 0,
      stopLossPrice = jmul entry (Fin (3/4)),
      takeProfitLevels = map untriggered (cfg_takeProfitLevels DEFAULT_CONFIG),
      trailingStopPct = Fin 15, trailingStopPrice = jmul entry (Fin (3/4)),
      highWaterMark = high, timeStopMinutes = Fin 60,
      entryTime = entered, lastUpdateTime = entered,
      pos_isPaper = True, pos_decisionCardId = ''d1'', exitReason = None\<rparr>"



definition calmHost :: host where
  "calmHost = \<lparr>numStr = (\<lambda>_. ''n''), toFixed = (\<lambda>_ _. ''n''), uuidv4 = (\<lambda>n. replicate (Suc n) CHR ''u''), random = (\<lambda>_. 1/2),
     storeFails = (\<lambda>_. False)\<rparr>"

definition fullPosition :: Position where
  "fullPosition = samplePosition (Fin 100) (Fin 150) (Fin 0)"

definition dustPosition :: Position where
  "dustPosition = fullPosition\<lparr>status := PARTIALLY_CLOSED, remainingTokens := Fin (1/80),
     totalTokensSold := Fin (100 - 1/80)\<rparr>"

definition staleEvent :: PumpEvent where
  "staleEvent = \<lparr>ev_type = EV_BUY, ev_tokenMint = ''MintA'', wallet = ''w1'',
     ev_amountSol = Fin 1, timestamp = Fin 0\<rparr>"

definition freshEvent :: PumpEvent where
  "freshEvent = \<lparr>ev_type = EV_BUY, ev_tokenMint = ''MintB'', wallet = ''w2'',
     ev_amountSol = Fin 1, timestamp = Fin 2000000\<rparr>"

definition oneFresh :: Buffers where
  "oneFresh = \<lparr>eventBuffer = [freshEvent], tokenEvents = [''MintB'' \<mapsto> [freshEvent]],
     rpcLatencyHistory = [], recentFailures = Fin 0, recentAttempts = Fin 0\<rparr>"

definition oneStale :: Buffers where
  "oneStale = \<lparr>eventBuffer = [staleEvent], tokenEvents = [''MintA'' \<mapsto> [staleEvent]],
     rpcLatencyHistory = [], recentFailures = Fin 0, recentAttempts = Fin 0\<rparr>"

definition buyOfTen :: PumpEvent where
  "buyOfTen = \<lparr>ev_type = EV_BUY, ev_tokenMint = ''MintA'', wallet = ''w1'',
     ev_amountSol = Fin 10, timestamp = Fin 2000000\<rparr>"

definition liquidFifty :: Buffers where
  "liquidFifty = \<lparr>eventBuffer = [buyOfTen], tokenEvents = [''MintA'' \<mapsto> [buyOfTen]],
     rpcLatencyHistory = [], recentFailures = Fin 0, recentAttempts = Fin 0\<rparr>"

definition staleHalt :: RiskState where
  "staleHalt = blockedState\<lparr>resumeAt := Some (Fin 5)\<rparr>"

definition downHost :: host where
  "downHost = testHost\<lparr>storeFails := (\<lambda>_. True)\<rparr>"


section \<open>Properties of binary64 rounding\<close>

lemma halvings_numeral [simp]:
  "halvings (numeral k) x e = (if 2 \<le> x then halvings (pred_numeral k) (x / 2) (e + 1) else e)"
  by (simp add: numeral_eq_Suc)

lemma doublings_numeral [simp]:
  "doublings (numeral k) x e = (if x < 1 then doublings (pred_numeral k) (x * 2) (e - 1) else e)"
  by (simp add: numeral_eq_Suc)

subsection \<open>Rounding to integers\<close>

lemma round_even_of_int [simp]: "round_even (of_int n) = n"
  by (simp add: round_even_def)

lemma round_even_zero [simp]: "round_even 0 = 0"
  using round_even_of_int[of 0] by simp

lemma round_even_bounds: "\<lfloor>z\<rfloor> \<le> round_even z" "round_even z \<le> \<lfloor>z\<rfloor> + 1"
  by (simp_all add: round_even_def Let_def)

lemma round_even_mono: "x \<le> y \<Longrightarrow> round_even x \<le> round_even y"
proof -
  assume le: "x \<le> y"
  then have f: "\<lfloor>x\<rfloor> \<le> \<lfloor>y\<rfloor>" by (rule floor_mono)
  show ?thesis
  proof (cases "\<lfloor>x\<rfloor> = \<lfloor>y\<rfloor>")
    case True
    then have "x - of_int \<lfloor>x\<rfloor> \<le> y - of_int \<lfloor>y\<rfloor>" using le by simp
    then show ?thesis using True by (auto simp add: round_even_def Let_def)
  next
    case False
    with f have "\<lfloor>x\<rfloor> + 1 \<le> \<lfloor>y\<rfloor>" by simp
    with round_even_bounds(2)[of x] round_even_bounds(1)[of y] show ?thesis by linarith
  qed
qed

lemma round_even_minus: "round_even (- x) = - round_even x"
proof (cases "x \<in> \<int>")
  case True
  then obtain n where "x = of_int n" by (auto elim: Ints_cases)
  then have "- x = of_int (- n)" by simp
  then show ?thesis unfolding \<open>x = of_int n\<close> by (metis round_even_of_int)
next
  case False
  then have ne: "x \<noteq> of_int \<lfloor>x\<rfloor>" by (metis Ints_of_int)
  then have fm: "\<lfloor>- x\<rfloor> = - \<lfloor>x\<rfloor> - 1"
    by (simp add: floor_minus ceiling_altdef)
  let ?d = "x - of_int \<lfloor>x\<rfloor>"
  have d: "- x - of_int \<lfloor>- x\<rfloor> = 1 - ?d" by (simp add: fm)
  have ev: "even (- \<lfloor>x\<rfloor> - 1) \<longleftrightarrow> odd \<lfloor>x\<rfloor>" by simp
  show ?thesis
    unfolding round_even_def Let_def d unfolding fm ev
    by (auto simp add: )
qed

lemma round_even_ge: "of_int n \<le> x \<Longrightarrow> n \<le> round_even x"
  using round_even_mono[of "of_int n" x] by simp

lemma round_even_le: "x \<le> of_int n \<Longrightarrow> round_even x \<le> n"
  using round_even_mono[of x "of_int n"] by simp

subsection \<open>The binary exponent\<close>

lemma two_powi_Suc: "(2::real) powi (a + 1) = 2 * 2 powi a"
  by (simp add: power_int_add)

lemma two_powi_pos [simp]: "0 < (2::real) powi a"
  by (simp add: zero_less_power_int)

lemma two_powi_mono: "a \<le> b \<Longrightarrow> (2::real) powi a \<le> 2 powi b"
  by (simp add: power_int_increasing)

lemma halvings_spec:
  "1 \<le> x \<Longrightarrow>
   e \<le> halvings n x e \<and> halvings n x e \<le> e + int n \<and>
   2 powi (halvings n x e - e) \<le> x \<and>
   (halvings n x e - e < int n \<longrightarrow> x < 2 powi (halvings n x e - e + 1))"
proof (induction n arbitrary: x e)
  case 0
  then show ?case by simp
next
  case (Suc n)
  show ?case
  proof (cases "2 \<le> x")
    case True
    define k where "k = halvings n (x / 2) (e + 1) - (e + 1)"
    have r: "halvings (Suc n) x e = e + 1 + k" using True by (simp add: k_def)
    from True have "1 \<le> x / 2" by simp
    from Suc.IH[OF this, of "e + 1"]
    have ih: "0 \<le> k" "k \<le> int n" "2 powi k \<le> x / 2"
      "k < int n \<longrightarrow> x / 2 < 2 powi (k + 1)" by (auto simp add: k_def)
    have a: "e \<le> e + 1 + k" "e + 1 + k \<le> e + int (Suc n)" using ih by simp_all
    have b: "2 powi (e + 1 + k - e) \<le> x"
      using ih(3) two_powi_Suc[of k] by (simp add: algebra_simps)
    have c: "e + 1 + k - e < int (Suc n) \<longrightarrow> x < 2 powi (e + 1 + k - e + 1)"
      using ih(4) two_powi_Suc[of "k + 1"] by (simp add: algebra_simps)
    show ?thesis unfolding r using a b c by blast
  next
    case False
    with Suc.prems show ?thesis by simp
  qed
qed

lemma doublings_spec:
  "0 \<le> x \<Longrightarrow> x < 2 \<Longrightarrow>
   e - int n \<le> doublings n x e \<and> doublings n x e \<le> e \<and>
   x < 2 powi (doublings n x e - e + 1) \<and>
   (e - doublings n x e < int n \<longrightarrow> 2 powi (doublings n x e - e) \<le> x)"
proof (induction n arbitrary: x e)
  case 0
  then show ?case by simp
next
  case (Suc n)
  show ?case
  proof (cases "x < 1")
    case True
    define k where "k = doublings n (x * 2) (e - 1) - (e - 1)"
    have r: "doublings (Suc n) x e = e - 1 + k" using True by (simp add: k_def)
    from True Suc.prems have "0 \<le> x * 2" "x * 2 < 2" by simp_all
    from Suc.IH[OF this, of "e - 1"]
    have ih: "- int n \<le> k" "k \<le> 0" "x * 2 < 2 powi (k + 1)"
      "- k < int n \<longrightarrow> 2 powi k \<le> x * 2" by (auto simp add: k_def)
    have a: "e - int (Suc n) \<le> e - 1 + k" "e - 1 + k \<le> e" using ih by simp_all
    have b: "x < 2 powi (e - 1 + k - e + 1)"
      using ih(3) two_powi_Suc[of k] by (simp add: algebra_simps)
    have c: "e - (e - 1 + k) < int (Suc n) \<longrightarrow> 2 powi (e - 1 + k - e) \<le> x"
      using ih(4) two_powi_Suc[of "k - 1"] by (simp add: algebra_simps)
    show ?thesis unfolding r using a b c by blast
  next
    case False
    with Suc.prems show ?thesis by simp
  qed
qed

lemma binade_range: "- 1022 \<le> binade x" "binade x \<le> 1024"
  using halvings_spec[of "\<bar>x\<bar>" 0 1024] doublings_spec[of "\<bar>x\<bar>" 0 1022]
  by (auto simp add: binade_def simp del: halvings_numeral doublings_numeral)

lemma binade_upper: "binade x < 1024 \<Longrightarrow> \<bar>x\<bar> < 2 powi (binade x + 1)"
  using halvings_spec[of "\<bar>x\<bar>" 0 1024] doublings_spec[of "\<bar>x\<bar>" 0 1022]
  by (auto simp add: binade_def simp del: halvings_numeral doublings_numeral)

lemma binade_lower: "- 1022 < binade x \<Longrightarrow> 2 powi (binade x) \<le> \<bar>x\<bar>"
  using halvings_spec[of "\<bar>x\<bar>" 0 1024] doublings_spec[of "\<bar>x\<bar>" 0 1022]
  by (auto simp add: binade_def simp del: halvings_numeral doublings_numeral)

lemma binade_mono: "\<bar>x\<bar> \<le> \<bar>y\<bar> \<Longrightarrow> binade x \<le> binade y"
proof (rule ccontr)
  assume le: "\<bar>x\<bar> \<le> \<bar>y\<bar>" and "\<not> binade x \<le> binade y"
  then have gt: "binade y < binade x" by simp
  with binade_range(2)[of x] have "binade y < 1024" by simp
  then have u: "\<bar>y\<bar> < 2 powi (binade y + 1)" by (rule binade_upper)
  from gt binade_range(1)[of y] have "- 1022 < binade x" by simp
  then have l: "2 powi (binade x) \<le> \<bar>x\<bar>" by (rule binade_lower)
  from gt have "(2::real) powi (binade y + 1) \<le> 2 powi (binade x)"
    by (intro two_powi_mono) simp
  with u l le show False by simp
qed

lemma binade_minus [simp]: "binade (- x) = binade x"
  by (simp add: binade_def)

lemma binade_eqI:
  "2 powi e \<le> \<bar>x\<bar> \<Longrightarrow> \<bar>x\<bar> < 2 powi (e + 1) \<Longrightarrow> - 1022 \<le> e \<Longrightarrow> e \<le> 1023 \<Longrightarrow>
   binade x = e"
proof (rule ccontr)
  assume a: "2 powi e \<le> \<bar>x\<bar>" "\<bar>x\<bar> < 2 powi (e + 1)" "- 1022 \<le> e" "e \<le> 1023"
    and ne: "binade x \<noteq> e"
  show False
  proof (cases "binade x < e")
    case True
    then have "binade x < 1024" using a(4) by simp
    then have "\<bar>x\<bar> < 2 powi (binade x + 1)" by (rule binade_upper)
    moreover from True have "(2::real) powi (binade x + 1) \<le> 2 powi e"
      by (intro two_powi_mono) simp
    ultimately show False using a(1) by simp
  next
    case False
    with ne have gt: "e < binade x" by simp
    then have "- 1022 < binade x" using a(3) by simp
    then have "2 powi (binade x) \<le> \<bar>x\<bar>" by (rule binade_lower)
    moreover from gt have "(2::real) powi (e + 1) \<le> 2 powi (binade x)"
      by (intro two_powi_mono) simp
    ultimately show False using a(2) by simp
  qed
qed

subsection \<open>The nearest binary64 value\<close>

lemma nearest_zero [simp]: "nearest 0 = 0"
  by (simp add: nearest_def)

lemma nearest_minus: "nearest (- x) = - nearest x"
  by (simp add: nearest_def round_even_minus)

lemma nearest_nonneg: "0 \<le> x \<Longrightarrow> 0 \<le> nearest x"
proof -
  assume "0 \<le> x"
  then have "of_int 0 \<le> x / 2 powi (binade x - 52)" by simp
  then have "0 \<le> round_even (x / 2 powi (binade x - 52))" by (rule round_even_ge)
  then show ?thesis by (simp add: nearest_def)
qed

lemma nearest_nonpos: "x \<le> 0 \<Longrightarrow> nearest x \<le> 0"
  using nearest_nonneg[of "- x"] by (simp add: nearest_minus)

lemma nearest_upper: "0 \<le> x \<Longrightarrow> binade x < 1024 \<Longrightarrow> nearest x \<le> 2 powi (binade x + 1)"
proof -
  assume x: "0 \<le> x" and b: "binade x < 1024"
  let ?u = "(2::real) powi (binade x - 52)"
  from binade_upper[OF b] x have "x < 2 powi (binade x + 1)" by simp
  also have "(2::real) powi (binade x + 1) = 2 powi 53 * ?u"
    using power_int_add[of "2::real" 53 "binade x - 52"] by (simp add: algebra_simps)
  finally have "x / ?u < 2 powi 53" by (simp add: pos_divide_less_eq)
  then have "x / ?u \<le> of_int (2 ^ 53)" by simp
  then have "round_even (x / ?u) \<le> 2 ^ 53" by (rule round_even_le)
  then have "(of_int (round_even (x / ?u)) :: real) \<le> of_int (2 ^ 53)" by (simp only: of_int_le_iff)
  then have "of_int (round_even (x / ?u)) * ?u \<le> 2 powi 53 * ?u" by simp
  also have "2 powi 53 * ?u = 2 powi (binade x + 1)"
    using power_int_add[of "2::real" 53 "binade x - 52"] by (simp add: algebra_simps)
  finally show ?thesis by (simp add: nearest_def)
qed

lemma nearest_lower: "0 \<le> x \<Longrightarrow> - 1022 < binade x \<Longrightarrow> 2 powi (binade x) \<le> nearest x"
proof -
  assume x: "0 \<le> x" and b: "- 1022 < binade x"
  let ?u = "(2::real) powi (binade x - 52)"
  have e: "(2::real) powi (binade x) = 2 powi 52 * ?u"
    using power_int_add[of "2::real" 52 "binade x - 52"] by (simp add: algebra_simps)
  from binade_lower[OF b] x have "2 powi (binade x) \<le> x" by simp
  then have "2 powi 52 \<le> x / ?u" unfolding e by (simp add: pos_le_divide_eq)
  then have "of_int (2 ^ 52) \<le> x / ?u" by simp
  then have "2 ^ 52 \<le> round_even (x / ?u)" by (rule round_even_ge)
  then have "(of_int (2 ^ 52) :: real) \<le> of_int (round_even (x / ?u))" by (simp only: of_int_le_iff)
  then have "2 powi 52 * ?u \<le> of_int (round_even (x / ?u)) * ?u" by simp
  then show ?thesis unfolding e by (simp add: nearest_def)
qed

lemma nearest_mono_nonneg: "0 \<le> x \<Longrightarrow> x \<le> y \<Longrightarrow> nearest x \<le> nearest y"
proof -
  assume x: "0 \<le> x" and xy: "x \<le> y"
  then have y: "0 \<le> y" by simp
  from x xy have "binade x \<le> binade y" by (intro binade_mono) simp
  then consider "binade x = binade y" | "binade x < binade y" by linarith
  then show ?thesis
  proof cases
    case 1
    let ?u = "(2::real) powi (binade y - 52)"
    from xy have "x / ?u \<le> y / ?u" by (simp add: divide_right_mono)
    then have "round_even (x / ?u) \<le> round_even (y / ?u)" by (rule round_even_mono)
    then have "(of_int (round_even (x / ?u)) :: real) \<le> of_int (round_even (y / ?u))" by simp
    then have "of_int (round_even (x / ?u)) * ?u \<le> of_int (round_even (y / ?u)) * ?u" by simp
    then show ?thesis by (simp add: nearest_def 1)
  next
    case 2
    with binade_range(2)[of y] have "binade x < 1024" by simp
    from nearest_upper[OF x this] have a: "nearest x \<le> 2 powi (binade x + 1)" .
    from 2 binade_range(1)[of x] have "- 1022 < binade y" by simp
    from nearest_lower[OF y this] have b: "2 powi (binade y) \<le> nearest y" .
    from 2 have "(2::real) powi (binade x + 1) \<le> 2 powi (binade y)"
      by (intro two_powi_mono) simp
    with a b show ?thesis by simp
  qed
qed

lemma nearest_mono: "x \<le> y \<Longrightarrow> nearest x \<le> nearest y"
proof -
  assume xy: "x \<le> y"
  consider "0 \<le> x" | "x < 0" "0 \<le> y" | "y < 0" by linarith
  then show ?thesis
  proof cases
    case 1
    then show ?thesis using xy by (rule nearest_mono_nonneg)
  next
    case 2
    then have "nearest x \<le> 0" "0 \<le> nearest y"
      by (simp_all add: nearest_nonpos nearest_nonneg)
    then show ?thesis by simp
  next
    case 3
    then have "0 \<le> - y" "- y \<le> - x" using xy by simp_all
    then have "nearest (- y) \<le> nearest (- x)" by (rule nearest_mono_nonneg)
    then show ?thesis by (simp add: nearest_minus)
  qed
qed

subsection \<open>Rounded results\<close>

lemma fl_zero [simp]: "fl 0 = Fin 0"
  by (simp add: fl_def)

lemma fl_not_NaN [simp]: "fl x \<noteq> NaN"
  by (simp add: fl_def)

lemma NaN_not_fl [simp]: "NaN \<noteq> fl x"
  using fl_not_NaN[of x] by (simp only: not_sym not_False_eq_True)

lemma lit_not_NaN [simp]: "lit x \<noteq> NaN" "NaN \<noteq> lit x"
  by (simp_all add: lit_def)

lemma fl_minus: "fl (- x) = jneg (fl x)"
  by (cases "x = 0") (auto simp add: fl_def nearest_minus)

lemma fl_cases [case_names fin pinf ninf]:
  obtains "fl x = Fin (nearest x)" "\<bar>nearest x\<bar> < 2 powi 1024"
  | "fl x = PInf" "0 < x" "2 powi 1024 \<le> nearest x"
  | "fl x = NInf" "x \<le> 0" "nearest x \<le> - (2 powi 1024)"
proof (cases "2 powi 1024 \<le> \<bar>nearest x\<bar>")
  case False
  then show ?thesis using that(1) by (simp add: fl_def)
next
  case big: True
  show ?thesis
  proof (cases "0 < x")
    case True
    then have "0 \<le> nearest x" by (simp add: nearest_nonneg)
    with big True show ?thesis using that(2) by (simp add: fl_def)
  next
    case False
    then have "nearest x \<le> 0" by (simp add: nearest_nonpos)
    with big False show ?thesis using that(3) by (simp add: fl_def)
  qed
qed

lemma fl_mono: "x \<le> y \<Longrightarrow> jle (fl x) (fl y)"
proof -
  assume xy: "x \<le> y"
  then have n: "nearest x \<le> nearest y" by (rule nearest_mono)
  show ?thesis
  proof (cases x rule: fl_cases)
    case fx: fin
    show ?thesis
    proof (cases y rule: fl_cases)
      case fin
      with fx n show ?thesis by simp
    next
      case pinf
      with fx show ?thesis by simp
    next
      case ninf
      with fx n show ?thesis by simp
    qed
  next
    case px: pinf
    show ?thesis
    proof (cases y rule: fl_cases)
      case fin
      with px n show ?thesis by simp
    next
      case pinf
      with px show ?thesis by simp
    next
      case ninf
      with px xy show ?thesis by simp
    qed
  next
    case nx: ninf
    show ?thesis
      by (cases y rule: fl_cases) (simp_all add: nx)
  qed
qed

lemma fl_nonneg: "0 \<le> x \<Longrightarrow> jle (Fin 0) (fl x)"
  using fl_mono[of 0 x] by simp

lemma fl_nonpos: "x \<le> 0 \<Longrightarrow> jle (fl x) (Fin 0)"
  using fl_mono[of x 0] by simp

text \<open>The facts by which \<^const>\<open>fl\<close> is evaluated at a given rational.\<close>

lemma nearest_bound: "binade x \<le> 1022 \<Longrightarrow> \<bar>nearest x\<bar> < 2 powi 1024"
proof -
  assume e: "binade x \<le> 1022"
  have b: "\<bar>nearest x\<bar> \<le> 2 powi (binade x + 1)"
  proof (cases "0 \<le> x")
    case True
    with e nearest_upper[of x] nearest_nonneg[of x] show ?thesis by simp
  next
    case False
    then have "0 \<le> - x" "nearest x \<le> 0" by (simp_all add: nearest_nonpos)
    with e nearest_upper[of "- x"] show ?thesis by (simp add: nearest_minus)
  qed
  from e have "(2::real) powi (binade x + 1) \<le> 2 powi 1023" by (intro two_powi_mono) simp
  also have "(2::real) powi 1023 < 2 powi 1024" by (simp add: power_int_strict_increasing)
  finally show ?thesis using b by simp
qed

text \<open>
  The rule by which \<^const>\<open>fl\<close> is evaluated at a given rational: the exponent is
  searched once, and below the last binade nothing overflows.
\<close>

lemma fl_unfold:
  "x \<noteq> 0 \<Longrightarrow>
   fl x = (let e = binade x
           in if e \<le> 1022
              then (let n = round_even (x / 2 powi (e - 52)) in Fin (of_int n * 2 powi (e - 52)))
              else if 2 powi 1024 \<le> \<bar>nearest x\<bar> then (if 0 < x then PInf else NInf)
              else Fin (nearest x))"
proof (cases "binade x \<le> 1022")
  case True
  then have "\<not> 2 powi 1024 \<le> \<bar>nearest x\<bar>" using nearest_bound[of x] by simp
  then have "fl x = Fin (nearest x)" by (simp only: fl_def if_False)
  with True show ?thesis by (simp only: Let_def if_True nearest_def)
next
  case False
  then show ?thesis by (simp only: Let_def if_False fl_def)
qed

lemma round_even_unfold:
  "round_even z = (if z - of_int \<lfloor>z\<rfloor> < 1/2 then \<lfloor>z\<rfloor>
                   else if 1/2 < z - of_int \<lfloor>z\<rfloor> then \<lfloor>z\<rfloor> + 1
                   else if even \<lfloor>z\<rfloor> then \<lfloor>z\<rfloor> else \<lfloor>z\<rfloor> + 1)"
  by (simp add: round_even_def Let_def)

text \<open>
  Sums, products and quotients of two given numbers are evaluated on demand only, by
  the facts \<open>fl_eval\<close>.
\<close>

lemmas jnum_ops = jadd.simps(1) jmul.simps(1) jdiv.simps(1)

declare jadd.simps(1) [simp del] jmul.simps(1) [simp del] jdiv.simps(1) [simp del]

lemmas fl_eval = jnum_ops lit_def fl_unfold binade_def round_even_unfold

section \<open>The pre-trade gate\<close>

lemma sublist_join: "x \<in> set xs \<Longrightarrow> sublist x (join sep xs)"
proof (induction sep xs rule: join.induct)
  case (1 sep)
  then show ?case by simp
next
  case (2 sep y)
  then show ?case by simp
next
  case (3 sep y z zs)
  show ?case
  proof (cases "x = y")
    case True
    then show ?thesis by simp
  next
    case False
    with 3 have "sublist x (join sep (z # zs))" by simp
    then obtain ps ss where "join sep (z # zs) = ps @ x @ ss" by (auto simp: sublist_def)
    then have "join sep (y # z # zs) = (y @ sep @ ps) @ x @ ss" by simp
    then show ?thesis unfolding sublist_def by blast
  qed
qed

lemma halted_in_name: "sublist ''halted'' ''Not halted''"
  by (simp add: sublist_Cons_right)

lemma sublist_chain: "sublist a b \<Longrightarrow> sublist b c \<Longrightarrow> sublist a c"
  by (rule sublist_order.order_trans)

lemma failed_named:
  "d \<in> set ds \<Longrightarrow> \<not> passed d \<Longrightarrow>
   sublist (check d) (''Blocked: '' @ join '', '' (map check (filter (\<lambda>d. \<not> passed d) ds)))"
proof -
  assume "d \<in> set ds" "\<not> passed d"
  then have "check d \<in> set (map check (filter (\<lambda>d. \<not> passed d) ds))" by auto
  then have "sublist (check d) (join '', '' (map check (filter (\<lambda>d. \<not> passed d) ds)))"
    by (rule sublist_join)
  then obtain ps ss where "join '', '' (map check (filter (\<lambda>d. \<not> passed d) ds)) = ps @ check d @ ss"
    by (auto simp: sublist_def)
  then have "''Blocked: '' @ join '', '' (map check (filter (\<lambda>d. \<not> passed d) ds))
             = (''Blocked: '' @ ps) @ check d @ ss" by simp
  then show ?thesis unfolding sublist_def by blast
qed

lemma refresh_isHalted: "isHalted (refreshRiskCounters db r) = isHalted r"
  by (simp add: refreshRiskCounters_def Let_def split: option.splits)

lemma gate_allowed:
  "allowed (fst (checkPreTradeRisk h db t config r0)) \<longleftrightarrow>
     list_all passed (riskChecks h (refreshRiskCounters db r0) t config)"
  by (simp add: checkPreTradeRisk_def Let_def)

lemma gate_reason:
  "\<not> allowed (fst (checkPreTradeRisk h db t config r0)) \<Longrightarrow>
   d \<in> set (riskChecks h (refreshRiskCounters db r0) t config) \<Longrightarrow> \<not> passed d \<Longrightarrow>
   sublist (check d) (reason (fst (checkPreTradeRisk h db t config r0)))"
proof -
  assume na: "\<not> allowed (fst (checkPreTradeRisk h db t config r0))"
    and d: "d \<in> set (riskChecks h (refreshRiskCounters db r0) t config)" "\<not> passed d"
  from na have "reason (fst (checkPreTradeRisk h db t config r0)) =
      ''Blocked: '' @ join '', '' (map check (filter (\<lambda>d. \<not> passed d)
         (riskChecks h (refreshRiskCounters db r0) t config)))"
    by (simp add: checkPreTradeRisk_def Let_def del: append.simps)
  with failed_named[OF d] show ?thesis by simp
qed

text \<open>
  At the limit the rounding of the quotient decides: a trade of 0.021 against an equity
  of 10.5 is 0.2 percent in binary64 arithmetic and passes the default limit of 0.2,
  and so does a trade of 0.025 against an equity of 10 and a limit of 0.25.
\<close>

lemma trade_size_at_the_limit:
  "jle (tradeSizePct (initialRiskState\<lparr>equitySol := Fin (21/2)\<rparr>) (lit (21/1000)))
       (riskPerTradePct DEFAULT_CONFIG)"
  "jle (tradeSizePct initialRiskState (lit (25/1000))) (Fin (1/4))"
  by (simp_all add: tradeSizePct_def initialRiskState_def DEFAULT_CONFIG_def fl_eval)

text \<open>
  Claim C1. \<^verbatim>\<open>checkPreTradeRisk\<close> refreshes the counters from the store and, on the
  refreshed state \<open>r\<close>, allows the trade exactly when all seven conditions hold: not
  halted; \<open>|todayDrawdownPct|\<close> strictly below the daily drawdown limit;
  \<open>(currentExposureSol + tradeSize) / equity * 100\<close> at most the exposure limit;
  \<open>tradeSize / equity * 100\<close> at most the per-trade limit; the hourly count, the daily
  count and the consecutive losses each strictly below their limits. When the trade
  is not allowed, the reason contains the name of every failing check. A halted state
  is never allowed and its reason mentions the halt. The default state with a trade of
  0.02 against the default configuration and an empty store is allowed. All sums,
  quotients and products are those of binary64 arithmetic.
\<close>

theorem checkPreTradeRisk_gate:
  fixes h db t config r0
  defines "r \<equiv> refreshRiskCounters db r0"
  defines "res \<equiv> fst (checkPreTradeRisk h db t config r0)"
  shows
  "snd (checkPreTradeRisk h db t config r0) = r \<and>
   (allowed res \<longleftrightarrow>
      \<not> isHalted r
      \<and> jlt (jabs (todayDrawdownPct r)) (dailyMaxDrawdownPct config)
      \<and> jle (jmul (jdiv (jadd (currentExposureSol r) t) (equitySol r)) (Fin 100)) (maxExposurePct config)
      \<and> jle (jmul (jdiv t (equitySol r)) (Fin 100)) (riskPerTradePct config)
      \<and> jlt (hourTradeCount r) (maxTradesPerHour config)
      \<and> jlt (todayTradeCount r) (maxTradesPerDay config)
      \<and> jlt (consecutiveLosses r) (maxConsecutiveLosses config)) \<and>
   (\<not> allowed res \<longrightarrow>
      (isHalted r \<longrightarrow> sublist ''Not halted'' (reason res))
      \<and> (\<not> jlt (jabs (todayDrawdownPct r)) (dailyMaxDrawdownPct config)
           \<longrightarrow> sublist ''Daily drawdown'' (reason res))
      \<and> (\<not> jle (jmul (jdiv (jadd (currentExposureSol r) t) (equitySol r)) (Fin 100)) (maxExposurePct config)
           \<longrightarrow> sublist ''Exposure limit'' (reason res))
      \<and> (\<not> jle (jmul (jdiv t (equitySol r)) (Fin 100)) (riskPerTradePct config)
           \<longrightarrow> sublist ''Trade size'' (reason res))
      \<and> (\<not> jlt (hourTradeCount r) (maxTradesPerHour config)
           \<longrightarrow> sublist ''Hourly trades'' (reason res))
      \<and> (\<not> jlt (todayTradeCount r) (maxTradesPerDay config)
           \<longrightarrow> sublist ''Daily trades'' (reason res))
      \<and> (\<not> jlt (consecutiveLosses r) (maxConsecutiveLosses config)
           \<longrightarrow> sublist ''Consec. losses'' (reason res))) \<and>
   (isHalted r0 \<longrightarrow> \<not> allowed res \<and> sublist ''halted'' (reason res)) \<and>
   allowed (fst (checkPreTradeRisk h emptyStore (lit (2/100)) DEFAULT_CONFIG initialRiskState))"
proof -
  let ?ds = "riskChecks h r t config"
  have st: "snd (checkPreTradeRisk h db t config r0) = r"
    by (simp add: checkPreTradeRisk_def Let_def r_def)
  have al: "allowed res \<longleftrightarrow> list_all passed ?ds"
    unfolding res_def r_def by (rule gate_allowed)
  have iff: "list_all passed ?ds \<longleftrightarrow>
      \<not> isHalted r
      \<and> jlt (jabs (todayDrawdownPct r)) (dailyMaxDrawdownPct config)
      \<and> jle (jmul (jdiv (jadd (currentExposureSol r) t) (equitySol r)) (Fin 100)) (maxExposurePct config)
      \<and> jle (jmul (jdiv t (equitySol r)) (Fin 100)) (riskPerTradePct config)
      \<and> jlt (hourTradeCount r) (maxTradesPerHour config)
      \<and> jlt (todayTradeCount r) (maxTradesPerDay config)
      \<and> jlt (consecutiveLosses r) (maxConsecutiveLosses config)"
    by (simp add: riskChecks_def newExposurePct_def tradeSizePct_def)
  have named: "sublist (check d) (reason res)" if "\<not> allowed res" "d \<in> set ?ds" "\<not> passed d" for d
    using that unfolding res_def r_def by (rule gate_reason)
  have n1: "isHalted r \<longrightarrow> sublist ''Not halted'' (reason res)" if na: "\<not> allowed res"
    using named[OF na, of "?ds ! 0"] by (simp add: riskChecks_def)
  have n2: "\<not> jlt (jabs (todayDrawdownPct r)) (dailyMaxDrawdownPct config)
           \<longrightarrow> sublist ''Daily drawdown'' (reason res)" if na: "\<not> allowed res"
    using named[OF na, of "?ds ! 1"] by (simp add: riskChecks_def)
  have n3: "\<not> jle (jmul (jdiv (jadd (currentExposureSol r) t) (equitySol r)) (Fin 100)) (maxExposurePct config)
           \<longrightarrow> sublist ''Exposure limit'' (reason res)" if na: "\<not> allowed res"
    using named[OF na, of "?ds ! 2"] by (simp add: riskChecks_def newExposurePct_def)
  have n4: "\<not> jle (jmul (jdiv t (equitySol r)) (Fin 100)) (riskPerTradePct config)
           \<longrightarrow> sublist ''Trade size'' (reason res)" if na: "\<not> allowed res"
    using named[OF na, of "?ds ! 3"] by (simp add: riskChecks_def tradeSizePct_def)
  have n5: "\<not> jlt (hourTradeCount r) (maxTradesPerHour config)
           \<longrightarrow> sublist ''Hourly trades'' (reason res)" if na: "\<not> allowed res"
    using named[OF na, of "?ds ! 4"] by (simp add: riskChecks_def)
  have n6: "\<not> jlt (todayTradeCount r) (maxTradesPerDay config)
           \<longrightarrow> sublist ''Daily trades'' (reason res)" if na: "\<not> allowed res"
    using named[OF na, of "?ds ! 5"] by (simp add: riskChecks_def)
  have n7: "\<not> jlt (consecutiveLosses r) (maxConsecutiveLosses config)
           \<longrightarrow> sublist ''Consec. losses'' (reason res)" if na: "\<not> allowed res"
    using named[OF na, of "?ds ! 6"] by (simp add: riskChecks_def)
  have hr: "isHalted r = isHalted r0"
    unfolding r_def by (rule refresh_isHalted)
  have halted: "\<not> allowed res \<and> sublist ''halted'' (reason res)" if "isHalted r0"
  proof -
    from that hr al iff have na: "\<not> allowed res" by simp
    with n1 that hr have "sublist ''Not halted'' (reason res)" by simp
    with halted_in_name have "sublist ''halted'' (reason res)" by (rule sublist_chain)
    with na show ?thesis by simp
  qed
  have dflt: "allowed (fst (checkPreTradeRisk h emptyStore (lit (2/100)) DEFAULT_CONFIG initialRiskState))"
    by (simp add: gate_allowed riskChecks_def refreshRiskCounters_def emptyStore_def
        DEFAULT_CONFIG_def initialRiskState_def newExposurePct_def tradeSizePct_def jgt_def fl_eval Let_def)
  show ?thesis
    using st al iff n1 n2 n3 n4 n5 n6 n7 halted dflt by blast
qed

theorem checkPreTradeRisk_gate_witness:
  "isHalted blockedState \<and>
   \<not> allowed (fst (checkPreTradeRisk testHost offlineStore (lit (5/100)) DEFAULT_CONFIG blockedState)) \<and>
   sublist ''halted'' (reason (fst (checkPreTradeRisk testHost offlineStore (lit (5/100)) DEFAULT_CONFIG blockedState))) \<and>
   sublist ''Not halted'' (reason (fst (checkPreTradeRisk testHost offlineStore (lit (5/100)) DEFAULT_CONFIG blockedState))) \<and>
   sublist ''Daily drawdown'' (reason (fst (checkPreTradeRisk testHost offlineStore (lit (5/100)) DEFAULT_CONFIG blockedState))) \<and>
   sublist ''Exposure limit'' (reason (fst (checkPreTradeRisk testHost offlineStore (lit (5/100)) DEFAULT_CONFIG blockedState))) \<and>
   sublist ''Trade size'' (reason (fst (checkPreTradeRisk testHost offlineStore (lit (5/100)) DEFAULT_CONFIG blockedState))) \<and>
   sublist ''Hourly trades'' (reason (fst (checkPreTradeRisk testHost offlineStore (lit (5/100)) DEFAULT_CONFIG blockedState))) \<and>
   sublist ''Daily trades'' (reason (fst (checkPreTradeRisk testHost offlineStore (lit (5/100)) DEFAULT_CONFIG blockedState))) \<and>
   sublist ''Consec. losses'' (reason (fst (checkPreTradeRisk testHost offlineStore (lit (5/100)) DEFAULT_CONFIG blockedState)))"
proof -
  have r: "refreshRiskCounters offlineStore blockedState = blockedState"
    by (simp add: refreshRiskCounters_def offlineStore_def)
  have f: "isHalted blockedState"
    "\<not> jlt (jabs (todayDrawdownPct blockedState)) (dailyMaxDrawdownPct DEFAULT_CONFIG)"
    "\<not> jle (jmul (jdiv (jadd (currentExposureSol blockedState) (lit (5/100))) (equitySol blockedState)) (Fin 100)) (maxExposurePct DEFAULT_CONFIG)"
    "\<not> jle (jmul (jdiv (lit (5/100)) (equitySol blockedState)) (Fin 100)) (riskPerTradePct DEFAULT_CONFIG)"
    "\<not> jlt (hourTradeCount blockedState) (maxTradesPerHour DEFAULT_CONFIG)"
    "\<not> jlt (todayTradeCount blockedState) (maxTradesPerDay DEFAULT_CONFIG)"
    "\<not> jlt (consecutiveLosses blockedState) (maxConsecutiveLosses DEFAULT_CONFIG)"
    by (simp_all add: blockedState_def initialRiskState_def DEFAULT_CONFIG_def fl_eval)
  show ?thesis
    using checkPreTradeRisk_gate[of testHost offlineStore "lit (5/100)" DEFAULT_CONFIG blockedState] f
    unfolding r by simp
qed

section \<open>The auto-halt evaluator\<close>

lemma activate_state:
  "riskState (snd (activateKillSwitch h now why g)) =
     (riskState g)\<lparr>isHalted := True, haltReason := Some why, haltedAt := Some now\<rparr>"
  "uuidsDrawn (snd (activateKillSwitch h now why g)) = Suc (uuidsDrawn g)"
  "statementsRun (snd (activateKillSwitch h now why g)) = Suc (statementsRun g)"
  by (simp_all add: activateKillSwitch_def saveIncident_def Let_def)

lemma activate_stored:
  assumes "incidentAccepted h now g"
  shows "fst (activateKillSwitch h now why g) = Inr ()"
    and "incidentTable (snd (activateKillSwitch h now why g)) =
           incidentTable g @ [killIncident h now why (uuidsDrawn g)]"
  using assms
  by (simp_all add: activateKillSwitch_def saveIncident_def killIncident_def incidentAccepted_def
      Let_def)

lemma activate_thrown:
  assumes "\<not> incidentAccepted h now g"
  shows "isl (fst (activateKillSwitch h now why g))"
    and "incidentTable (snd (activateKillSwitch h now why g)) = incidentTable g"
  using assms
  by (auto simp add: activateKillSwitch_def saveIncident_def killIncident_def
      incidentAccepted_def Let_def)

lemma drawdown_fires:
  assumes "\<not> isHalted (riskState g)"
    and "jge (jabs (todayDrawdownPct (riskState g))) (dailyMaxDrawdownPct config)"
    and "incidentAccepted h now g"
  shows "\<not> isl (fst (drawdownHalt h now config g))"
    and "map severity (projr (fst (drawdownHalt h now config g))) = [CRITICAL]"
    and "map category (projr (fst (drawdownHalt h now config g))) = [''DAILY_DRAWDOWN'']"
    and "isHalted (riskState (snd (drawdownHalt h now config g)))"
    and "resumeAt (riskState (snd (drawdownHalt h now config g)))
           = Some (jadd now (Fin (24 * 3600000)))"
    and "haltedAt (riskState (snd (drawdownHalt h now config g))) = Some now"
    and "map severity (incidentTable (snd (drawdownHalt h now config g)))
           = map severity (incidentTable g) @ [CRITICAL]"
proof -
  let ?msg = "''Daily drawdown: '' @ toFixed h 2 (todayDrawdownPct (riskState g)) @ ''% (limit: ''
                @ numStr h (dailyMaxDrawdownPct config) @ ''%)''"
  obtain u g1 where a: "activateKillSwitch h now ?msg g = (Inr u, g1)"
    using activate_stored(1)[OF assms(3), of ?msg] by (cases "activateKillSwitch h now ?msg g") auto
  have g1: "riskState g1 = (riskState g)\<lparr>isHalted := True, haltReason := Some ?msg, haltedAt := Some now\<rparr>"
      "incidentTable g1 = incidentTable g @ [killIncident h now ?msg (uuidsDrawn g)]"
    using activate_state(1)[of h now ?msg g] activate_stored(2)[OF assms(3), of ?msg] a by simp_all
  have d: "drawdownHalt h now config g =
     (Inr [\<lparr>inc_id = uuidv4 h (uuidsDrawn g1), inc_timestamp = now,
            severity = CRITICAL, category = ''DAILY_DRAWDOWN'', message = ?msg,
            autoAction = Some ''Trading halted for 24h'', resolved = False\<rparr>],
      g1\<lparr>riskState := (riskState g1)\<lparr>resumeAt := Some (jadd now (Fin (24 * 3600000)))\<rparr>,
         uuidsDrawn := Suc (uuidsDrawn g1)\<rparr>)"
    using assms(1,2) a by (simp add: drawdownHalt_def Let_def del: append.simps)
  show "\<not> isl (fst (drawdownHalt h now config g))"
    and "map severity (projr (fst (drawdownHalt h now config g))) = [CRITICAL]"
    and "map category (projr (fst (drawdownHalt h now config g))) = [''DAILY_DRAWDOWN'']"
    and "isHalted (riskState (snd (drawdownHalt h now config g)))"
    and "resumeAt (riskState (snd (drawdownHalt h now config g)))
           = Some (jadd now (Fin (24 * 3600000)))"
    and "haltedAt (riskState (snd (drawdownHalt h now config g))) = Some now"
    and "map severity (incidentTable (snd (drawdownHalt h now config g)))
           = map severity (incidentTable g) @ [CRITICAL]"
    unfolding d by (simp_all add: g1 killIncident_def)
qed

lemma drawdown_throws:
  assumes "\<not> isHalted (riskState g)"
    and "jge (jabs (todayDrawdownPct (riskState g))) (dailyMaxDrawdownPct config)"
    and "\<not> incidentAccepted h now g"
  shows "isl (fst (drawdownHalt h now config g))"
    and "isHalted (riskState (snd (drawdownHalt h now config g)))"
    and "resumeAt (riskState (snd (drawdownHalt h now config g))) = resumeAt (riskState g)"
    and "haltedAt (riskState (snd (drawdownHalt h now config g))) = Some now"
    and "incidentTable (snd (drawdownHalt h now config g)) = incidentTable g"
proof -
  let ?msg = "''Daily drawdown: '' @ toFixed h 2 (todayDrawdownPct (riskState g)) @ ''% (limit: ''
                @ numStr h (dailyMaxDrawdownPct config) @ ''%)''"
  obtain e g1 where a: "activateKillSwitch h now ?msg g = (Inl e, g1)"
    using activate_thrown(1)[OF assms(3), of ?msg]
    by (cases "activateKillSwitch h now ?msg g") (auto simp add: isl_def)
  have g1: "riskState g1 = (riskState g)\<lparr>isHalted := True, haltReason := Some ?msg, haltedAt := Some now\<rparr>"
      "incidentTable g1 = incidentTable g"
    using activate_state(1)[of h now ?msg g] activate_thrown(2)[OF assms(3), of ?msg] a by simp_all
  have d: "drawdownHalt h now config g = (Inl e, g1)"
    using assms(1,2) a by (simp add: drawdownHalt_def Let_def del: append.simps)
  show "isl (fst (drawdownHalt h now config g))"
    and "isHalted (riskState (snd (drawdownHalt h now config g)))"
    and "resumeAt (riskState (snd (drawdownHalt h now config g))) = resumeAt (riskState g)"
    and "haltedAt (riskState (snd (drawdownHalt h now config g))) = Some now"
    and "incidentTable (snd (drawdownHalt h now config g)) = incidentTable g"
    unfolding d by (simp_all add: g1)
qed

lemma drawdown_idle:
  assumes "isHalted (riskState g) \<or> \<not> jge (jabs (todayDrawdownPct (riskState g))) (dailyMaxDrawdownPct config)"
  shows "drawdownHalt h now config g = (Inr [], g)"
  using assms by (auto simp add: drawdownHalt_def Let_def)

lemma losses_fires:
  assumes "\<not> isHalted (riskState g)"
    and "jge (consecutiveLosses (riskState g)) (maxConsecutiveLosses config)"
    and "incidentAccepted h now g"
  shows "\<not> isl (fst (lossesHalt h now config g))"
    and "map severity (projr (fst (lossesHalt h now config g))) = [WARNING]"
    and "map category (projr (fst (lossesHalt h now config g))) = [''CONSECUTIVE_LOSSES'']"
    and "isHalted (riskState (snd (lossesHalt h now config g)))"
    and "resumeAt (riskState (snd (lossesHalt h now config g))) = resumeAt (riskState g)"
    and "haltedAt (riskState (snd (lossesHalt h now config g))) = Some now"
    and "map severity (incidentTable (snd (lossesHalt h now config g)))
           = map severity (incidentTable g) @ [CRITICAL]"
proof -
  let ?msg = "numStr h (consecutiveLosses (riskState g)) @ '' consecutive losses''"
  obtain u g1 where a: "activateKillSwitch h now ?msg g = (Inr u, g1)"
    using activate_stored(1)[OF assms(3), of ?msg] by (cases "activateKillSwitch h now ?msg g") auto
  have g1: "riskState g1 = (riskState g)\<lparr>isHalted := True, haltReason := Some ?msg, haltedAt := Some now\<rparr>"
      "incidentTable g1 = incidentTable g @ [killIncident h now ?msg (uuidsDrawn g)]"
    using activate_state(1)[of h now ?msg g] activate_stored(2)[OF assms(3), of ?msg] a by simp_all
  have d: "lossesHalt h now config g =
     (Inr [\<lparr>inc_id = uuidv4 h (uuidsDrawn g1), inc_timestamp = now,
            severity = WARNING, category = ''CONSECUTIVE_LOSSES'', message = ?msg,
            autoAction = Some ''Trading paused'', resolved = False\<rparr>],
      g1\<lparr>uuidsDrawn := Suc (uuidsDrawn g1)\<rparr>)"
    using assms(1,2) a by (simp add: lossesHalt_def Let_def del: append.simps)
  show "\<not> isl (fst (lossesHalt h now config g))"
    and "map severity (projr (fst (lossesHalt h now config g))) = [WARNING]"
    and "map category (projr (fst (lossesHalt h now config g))) = [''CONSECUTIVE_LOSSES'']"
    and "isHalted (riskState (snd (lossesHalt h now config g)))"
    and "resumeAt (riskState (snd (lossesHalt h now config g))) = resumeAt (riskState g)"
    and "haltedAt (riskState (snd (lossesHalt h now config g))) = Some now"
    and "map severity (incidentTable (snd (lossesHalt h now config g)))
           = map severity (incidentTable g) @ [CRITICAL]"
    unfolding d by (simp_all add: g1 killIncident_def)
qed

lemma losses_throws:
  assumes "\<not> isHalted (riskState g)"
    and "jge (consecutiveLosses (riskState g)) (maxConsecutiveLosses config)"
    and "\<not> incidentAccepted h now g"
  shows "isl (fst (lossesHalt h now config g))"
    and "isHalted (riskState (snd (lossesHalt h now config g)))"
    and "resumeAt (riskState (snd (lossesHalt h now config g))) = resumeAt (riskState g)"
    and "haltedAt (riskState (snd (lossesHalt h now config g))) = Some now"
    and "incidentTable (snd (lossesHalt h now config g)) = incidentTable g"
proof -
  let ?msg = "numStr h (consecutiveLosses (riskState g)) @ '' consecutive losses''"
  obtain e g1 where a: "activateKillSwitch h now ?msg g = (Inl e, g1)"
    using activate_thrown(1)[OF assms(3), of ?msg]
    by (cases "activateKillSwitch h now ?msg g") (auto simp add: isl_def)
  have g1: "riskState g1 = (riskState g)\<lparr>isHalted := True, haltReason := Some ?msg, haltedAt := Some now\<rparr>"
      "incidentTable g1 = incidentTable g"
    using activate_state(1)[of h now ?msg g] activate_thrown(2)[OF assms(3), of ?msg] a by simp_all
  have d: "lossesHalt h now config g = (Inl e, g1)"
    using assms(1,2) a by (simp add: lossesHalt_def Let_def del: append.simps)
  show "isl (fst (lossesHalt h now config g))"
    and "isHalted (riskState (snd (lossesHalt h now config g)))"
    and "resumeAt (riskState (snd (lossesHalt h now config g))) = resumeAt (riskState g)"
    and "haltedAt (riskState (snd (lossesHalt h now config g))) = Some now"
    and "incidentTable (snd (lossesHalt h now config g)) = incidentTable g"
    unfolding d by (simp_all add: g1)
qed

lemma losses_idle:
  assumes "isHalted (riskState g) \<or> \<not> jge (consecutiveLosses (riskState g)) (maxConsecutiveLosses config)"
  shows "lossesHalt h now config g = (Inr [], g)"
  using assms by (auto simp add: lossesHalt_def Let_def)

text \<open>\<^verbatim>\<open>runAutoHaltChecks\<close> in terms of its two statements.\<close>

lemma run_first_throws:
  "isl (fst (drawdownHalt h now config (g\<lparr>riskState := refreshRiskCounters db (riskState g)\<rparr>))) \<Longrightarrow>
   runAutoHaltChecks h db now config g
     = drawdownHalt h now config (g\<lparr>riskState := refreshRiskCounters db (riskState g)\<rparr>)"
  by (cases "drawdownHalt h now config (g\<lparr>riskState := refreshRiskCounters db (riskState g)\<rparr>)")
     (auto simp add: runAutoHaltChecks_def isl_def)

lemma run_second_idle:
  assumes "\<not> isl (fst (drawdownHalt h now config (g\<lparr>riskState := refreshRiskCounters db (riskState g)\<rparr>)))"
    and "isHalted (riskState (snd (drawdownHalt h now config
                   (g\<lparr>riskState := refreshRiskCounters db (riskState g)\<rparr>))))"
  shows "fst (runAutoHaltChecks h db now config g)
           = Inr (projr (fst (drawdownHalt h now config
                   (g\<lparr>riskState := refreshRiskCounters db (riskState g)\<rparr>))))"
    and "snd (runAutoHaltChecks h db now config g)
           = snd (drawdownHalt h now config (g\<lparr>riskState := refreshRiskCounters db (riskState g)\<rparr>))"
proof -
  let ?g0 = "g\<lparr>riskState := refreshRiskCounters db (riskState g)\<rparr>"
  define ins where "ins = projr (fst (drawdownHalt h now config ?g0))"
  define g1 where "g1 = snd (drawdownHalt h now config ?g0)"
  have d: "drawdownHalt h now config ?g0 = (Inr ins, g1)"
    using assms(1) by (simp add: ins_def g1_def prod_eq_iff)
  with assms(2) have "lossesHalt h now config g1 = (Inr [], g1)" by (simp add: losses_idle)
  with d show "fst (runAutoHaltChecks h db now config g) = Inr (projr (fst (drawdownHalt h now config ?g0)))"
    and "snd (runAutoHaltChecks h db now config g) = snd (drawdownHalt h now config ?g0)"
    by (simp_all add: runAutoHaltChecks_def)
qed

lemma run_first_idle:
  assumes "drawdownHalt h now config (g\<lparr>riskState := refreshRiskCounters db (riskState g)\<rparr>)
             = (Inr [], g\<lparr>riskState := refreshRiskCounters db (riskState g)\<rparr>)"
  shows "runAutoHaltChecks h db now config g
           = lossesHalt h now config (g\<lparr>riskState := refreshRiskCounters db (riskState g)\<rparr>)"
  using assms
  by (cases "lossesHalt h now config (g\<lparr>riskState := refreshRiskCounters db (riskState g)\<rparr>)")
     (auto simp add: runAutoHaltChecks_def split: sum.splits)

lemma refresh_samples:
  "refreshRiskCounters emptyStore drawdownBreached = drawdownBreached"
  "refreshRiskCounters lossyStore initialRiskState = lossesBreached"
  "refreshRiskCounters lossyStore drawdownBreached = bothBreached"
  by (simp_all add: refreshRiskCounters_def emptyStore_def lossyStore_def drawdownBreached_def
      lossesBreached_def bothBreached_def initialRiskState_def jgt_def Let_def jnum_ops)

lemma refresh_resumeAt: "resumeAt (refreshRiskCounters db r) = resumeAt r"
  by (simp add: refreshRiskCounters_def Let_def split: option.splits)

text \<open>
  Claim C2 as stated fails where both rules apply.
  When the drawdown limit and the consecutive-loss limit are both breached in a state
  that is not halted, the drawdown rule halts first and the loss rule then sees a
  halted state: the only incident returned is the CRITICAL one, no WARNING incident is
  returned, and an auto-resume timestamp is set.
\<close>

theorem runAutoHaltChecks_both_counterexample:
  "\<not> isHalted (refreshRiskCounters lossyStore drawdownBreached) \<and>
   jge (consecutiveLosses (refreshRiskCounters lossyStore drawdownBreached))
       (maxConsecutiveLosses DEFAULT_CONFIG) \<and>
   map severity (projr (fst (runAutoHaltChecks testHost lossyStore (Fin 1000) DEFAULT_CONFIG
                        (governorOf drawdownBreached)))) = [CRITICAL] \<and>
   resumeAt (riskState (snd (runAutoHaltChecks testHost lossyStore (Fin 1000) DEFAULT_CONFIG
                        (governorOf drawdownBreached)))) = Some (Fin 86401000)"
  by (simp add: runAutoHaltChecks_def lossesHalt_def drawdownHalt_def activateKillSwitch_def
      saveIncident_def killIncident_def refresh_samples bothBreached_def testHost_def
      initialRiskState_def DEFAULT_CONFIG_def governorOf_def jge_def fl_eval Let_def)

text \<open>
  Claim C2, as amended. On the state \<open>r\<close> refreshed from the store:
  if \<open>r\<close> is not halted and \<open>|todayDrawdownPct|\<close> has reached the daily limit,
  \<^verbatim>\<open>runAutoHaltChecks\<close> halts; when the store accepts the incident of the kill switch
  it returns one CRITICAL incident and sets the auto-resume timestamp to 24 hours after
  now, and when the store rejects that incident the call throws, with the state halted,
  no incident stored and the auto-resume timestamp as it was;
  if \<open>r\<close> is not halted, the drawdown rule did not fire and the consecutive losses have
  reached their limit, it halts and leaves the auto-resume timestamp as it was; when the
  store accepts the incident of the kill switch it returns one WARNING incident, and
  when the store rejects it the call throws with no incident stored;
  if \<open>r\<close> is already halted, or neither limit is reached, it returns no incident and
  changes nothing beyond the refreshed counters;
  and every activation of the kill switch, these two included, halts, and appends a
  CRITICAL incident to the incident table of the store unless the store rejects it, in
  which case the activation throws.
\<close>

theorem runAutoHaltChecks_transitions:
  fixes h db now config g why
  defines "r \<equiv> refreshRiskCounters db (riskState g)"
  defines "res \<equiv> runAutoHaltChecks h db now config g"
  defines "drawdown \<equiv> jge (jabs (todayDrawdownPct r)) (dailyMaxDrawdownPct config)"
  defines "losses \<equiv> jge (consecutiveLosses r) (maxConsecutiveLosses config)"
  defines "act \<equiv> activateKillSwitch h now why g"
  shows
  "(\<not> isHalted r \<and> drawdown \<longrightarrow>
      isHalted (riskState (snd res)) \<and>
      (incidentAccepted h now g \<longrightarrow>
         \<not> isl (fst res) \<and>
         map severity (projr (fst res)) = [CRITICAL] \<and>
         map category (projr (fst res)) = [''DAILY_DRAWDOWN''] \<and>
         resumeAt (riskState (snd res)) = Some (jadd now (Fin (24 * 3600000))) \<and>
         map severity (incidentTable (snd res)) = map severity (incidentTable g) @ [CRITICAL]) \<and>
      (\<not> incidentAccepted h now g \<longrightarrow>
         isl (fst res) \<and> resumeAt (riskState (snd res)) = resumeAt (riskState g) \<and>
         incidentTable (snd res) = incidentTable g)) \<and>
   (\<not> isHalted r \<and> \<not> drawdown \<and> losses \<longrightarrow>
      isHalted (riskState (snd res)) \<and>
      resumeAt (riskState (snd res)) = resumeAt (riskState g) \<and>
      (incidentAccepted h now g \<longrightarrow>
         \<not> isl (fst res) \<and>
         map severity (projr (fst res)) = [WARNING] \<and>
         map category (projr (fst res)) = [''CONSECUTIVE_LOSSES''] \<and>
         map severity (incidentTable (snd res)) = map severity (incidentTable g) @ [CRITICAL]) \<and>
      (\<not> incidentAccepted h now g \<longrightarrow>
         isl (fst res) \<and> incidentTable (snd res) = incidentTable g)) \<and>
   (isHalted r \<or> (\<not> drawdown \<and> \<not> losses) \<longrightarrow>
      fst res = Inr [] \<and> snd res = g\<lparr>riskState := r\<rparr>) \<and>
   (isHalted (riskState (snd act)) \<and>
    (incidentAccepted h now g \<longrightarrow>
       fst act = Inr () \<and>
       map severity (incidentTable (snd act)) = map severity (incidentTable g) @ [CRITICAL]) \<and>
    (\<not> incidentAccepted h now g \<longrightarrow>
       isl (fst act) \<and> incidentTable (snd act) = incidentTable g))"
proof -
  let ?g0 = "g\<lparr>riskState := r\<rparr>"
  have g0: "riskState ?g0 = r" "incidentTable ?g0 = incidentTable g" by simp_all
  have acc: "incidentAccepted h now ?g0 = incidentAccepted h now g"
    by (simp add: incidentAccepted_def)
  have ra: "resumeAt r = resumeAt (riskState g)"
    unfolding r_def by (rule refresh_resumeAt)
  have p1a: "isHalted (riskState (snd res))" if a: "\<not> isHalted r" "drawdown"
  proof (cases "incidentAccepted h now g")
    case True
    from a True have "isHalted (riskState (snd (drawdownHalt h now config ?g0)))"
        "\<not> isl (fst (drawdownHalt h now config ?g0))"
      unfolding drawdown_def by (simp_all add: drawdown_fires acc)
    then show ?thesis unfolding res_def r_def by (simp add: run_second_idle)
  next
    case False
    from a False have "isHalted (riskState (snd (drawdownHalt h now config ?g0)))"
        "isl (fst (drawdownHalt h now config ?g0))"
      unfolding drawdown_def by (simp_all add: drawdown_throws acc)
    then show ?thesis unfolding res_def r_def by (simp add: run_first_throws)
  qed
  have p1b: "\<not> isl (fst res) \<and>
         map severity (projr (fst res)) = [CRITICAL] \<and>
         map category (projr (fst res)) = [''DAILY_DRAWDOWN''] \<and>
         resumeAt (riskState (snd res)) = Some (jadd now (Fin (24 * 3600000))) \<and>
         map severity (incidentTable (snd res)) = map severity (incidentTable g) @ [CRITICAL]"
    if a: "\<not> isHalted r" "drawdown" and s: "incidentAccepted h now g"
  proof -
    from s acc have s0: "incidentAccepted h now ?g0" by simp
    from a have a0: "\<not> isHalted (riskState ?g0)"
        "jge (jabs (todayDrawdownPct (riskState ?g0))) (dailyMaxDrawdownPct config)"
      unfolding drawdown_def by simp_all
    note f = drawdown_fires[OF a0 s0]
    have "fst res = Inr (projr (fst (drawdownHalt h now config ?g0)))"
        "snd res = snd (drawdownHalt h now config ?g0)"
      unfolding res_def r_def using f(1,4) unfolding r_def by (simp_all add: run_second_idle)
    with f show ?thesis by simp
  qed
  have p1c: "isl (fst res) \<and> resumeAt (riskState (snd res)) = resumeAt (riskState g) \<and>
         incidentTable (snd res) = incidentTable g"
    if a: "\<not> isHalted r" "drawdown" and s: "\<not> incidentAccepted h now g"
  proof -
    from s acc have s0: "\<not> incidentAccepted h now ?g0" by simp
    from a have a0: "\<not> isHalted (riskState ?g0)"
        "jge (jabs (todayDrawdownPct (riskState ?g0))) (dailyMaxDrawdownPct config)"
      unfolding drawdown_def by simp_all
    note f = drawdown_throws[OF a0 s0]
    have "res = drawdownHalt h now config ?g0"
      unfolding res_def r_def using f(1) unfolding r_def by (rule run_first_throws)
    with f ra show ?thesis by simp
  qed
  have l0: "res = lossesHalt h now config ?g0" if a: "\<not> drawdown"
  proof -
    from a have "drawdownHalt h now config ?g0 = (Inr [], ?g0)"
      unfolding drawdown_def by (simp add: drawdown_idle)
    then show ?thesis unfolding res_def r_def by (rule run_first_idle)
  qed
  have p2a: "isHalted (riskState (snd res)) \<and>
      resumeAt (riskState (snd res)) = resumeAt (riskState g)"
    if a: "\<not> isHalted r" "\<not> drawdown" "losses"
  proof -
    from a have a0: "\<not> isHalted (riskState ?g0)"
        "jge (consecutiveLosses (riskState ?g0)) (maxConsecutiveLosses config)"
      unfolding losses_def by simp_all
    show ?thesis
    proof (cases "incidentAccepted h now ?g0")
      case True
      from losses_fires(4,5)[OF a0 True] l0[OF a(2)] ra show ?thesis by simp
    next
      case False
      from losses_throws(2,3)[OF a0 False] l0[OF a(2)] ra show ?thesis by simp
    qed
  qed
  have p2b: "\<not> isl (fst res) \<and>
         map severity (projr (fst res)) = [WARNING] \<and>
         map category (projr (fst res)) = [''CONSECUTIVE_LOSSES''] \<and>
         map severity (incidentTable (snd res)) = map severity (incidentTable g) @ [CRITICAL]"
    if a: "\<not> isHalted r" "\<not> drawdown" "losses" and s: "incidentAccepted h now g"
  proof -
    from s acc have s0: "incidentAccepted h now ?g0" by simp
    from a have a0: "\<not> isHalted (riskState ?g0)"
        "jge (consecutiveLosses (riskState ?g0)) (maxConsecutiveLosses config)"
      unfolding losses_def by simp_all
    from losses_fires[OF a0 s0] l0[OF a(2)] show ?thesis by simp
  qed
  have p2c: "isl (fst res) \<and> incidentTable (snd res) = incidentTable g"
    if a: "\<not> isHalted r" "\<not> drawdown" "losses" and s: "\<not> incidentAccepted h now g"
  proof -
    from s acc have s0: "\<not> incidentAccepted h now ?g0" by simp
    from a have a0: "\<not> isHalted (riskState ?g0)"
        "jge (consecutiveLosses (riskState ?g0)) (maxConsecutiveLosses config)"
      unfolding losses_def by simp_all
    from losses_throws[OF a0 s0] l0[OF a(2)] show ?thesis by simp
  qed
  have p3: "fst res = Inr [] \<and> snd res = ?g0" if a: "isHalted r \<or> (\<not> drawdown \<and> \<not> losses)"
  proof -
    from a have d: "drawdownHalt h now config ?g0 = (Inr [], ?g0)"
      unfolding drawdown_def by (auto simp add: drawdown_idle)
    from a have "lossesHalt h now config ?g0 = (Inr [], ?g0)"
      unfolding losses_def by (auto simp add: losses_idle)
    with run_first_idle[where h = h and now = now and config = config and g = g and db = db] d show ?thesis
      unfolding res_def r_def by simp
  qed
  have p4a: "isHalted (riskState (snd act))"
    unfolding act_def by (simp add: activate_state)
  have p4b: "fst act = Inr () \<and>
       map severity (incidentTable (snd act)) = map severity (incidentTable g) @ [CRITICAL]"
    if "incidentAccepted h now g"
    unfolding act_def using that by (simp add: activate_stored killIncident_def)
  have p4c: "isl (fst act) \<and> incidentTable (snd act) = incidentTable g"
    if "\<not> incidentAccepted h now g"
    unfolding act_def using that by (simp add: activate_thrown)
  show ?thesis
    apply (intro conjI impI)
    subgoal using p1a by blast
    subgoal using p1b by blast
    subgoal using p1b by blast
    subgoal using p1b by blast
    subgoal using p1b by blast
    subgoal using p1b by blast
    subgoal using p1c by blast
    subgoal using p1c by blast
    subgoal using p1c by blast
    subgoal using p2a by blast
    subgoal using p2a by blast
    subgoal using p2b by blast
    subgoal using p2b by blast
    subgoal using p2b by blast
    subgoal using p2b by blast
    subgoal using p2c by blast
    subgoal using p2c by blast
    subgoal using p3 by blast
    subgoal using p3 by blast
    subgoal using p4a by blast
    subgoal using p4b by blast
    subgoal using p4b by blast
    subgoal using p4c by blast
    subgoal using p4c by blast
    done
qed

theorem runAutoHaltChecks_transitions_witness:
  "(\<not> isHalted (refreshRiskCounters emptyStore drawdownBreached) \<and>
    jge (jabs (todayDrawdownPct (refreshRiskCounters emptyStore drawdownBreached)))
        (dailyMaxDrawdownPct DEFAULT_CONFIG) \<and>
    incidentAccepted testHost (Fin 1000) (governorOf drawdownBreached) \<and>
    isHalted (riskState (snd (runAutoHaltChecks testHost emptyStore (Fin 1000) DEFAULT_CONFIG (governorOf drawdownBreached)))) \<and>
    \<not> isl (fst (runAutoHaltChecks testHost emptyStore (Fin 1000) DEFAULT_CONFIG (governorOf drawdownBreached))) \<and>
    map severity (projr (fst (runAutoHaltChecks testHost emptyStore (Fin 1000) DEFAULT_CONFIG (governorOf drawdownBreached)))) = [CRITICAL] \<and>
    resumeAt (riskState (snd (runAutoHaltChecks testHost emptyStore (Fin 1000) DEFAULT_CONFIG (governorOf drawdownBreached)))) = Some (Fin 86401000) \<and>
    map severity (incidentTable (snd (runAutoHaltChecks testHost emptyStore (Fin 1000) DEFAULT_CONFIG (governorOf drawdownBreached)))) = [CRITICAL]) \<and>
   (\<not> incidentAccepted downHost (Fin 1000) (governorOf drawdownBreached) \<and>
    isHalted (riskState (snd (runAutoHaltChecks downHost emptyStore (Fin 1000) DEFAULT_CONFIG (governorOf drawdownBreached)))) \<and>
    isl (fst (runAutoHaltChecks downHost emptyStore (Fin 1000) DEFAULT_CONFIG (governorOf drawdownBreached))) \<and>
    resumeAt (riskState (snd (runAutoHaltChecks downHost emptyStore (Fin 1000) DEFAULT_CONFIG (governorOf drawdownBreached)))) = None \<and>
    incidentTable (snd (runAutoHaltChecks downHost emptyStore (Fin 1000) DEFAULT_CONFIG (governorOf drawdownBreached))) = []) \<and>
   (\<not> isHalted (refreshRiskCounters lossyStore initialRiskState) \<and>
    \<not> jge (jabs (todayDrawdownPct (refreshRiskCounters lossyStore initialRiskState)))
          (dailyMaxDrawdownPct DEFAULT_CONFIG) \<and>
    jge (consecutiveLosses (refreshRiskCounters lossyStore initialRiskState))
        (maxConsecutiveLosses DEFAULT_CONFIG) \<and>
    incidentAccepted testHost (Fin 1000) (governorOf initialRiskState) \<and>
    isHalted (riskState (snd (runAutoHaltChecks testHost lossyStore (Fin 1000) DEFAULT_CONFIG (governorOf initialRiskState)))) \<and>
    \<not> isl (fst (runAutoHaltChecks testHost lossyStore (Fin 1000) DEFAULT_CONFIG (governorOf initialRiskState))) \<and>
    map severity (projr (fst (runAutoHaltChecks testHost lossyStore (Fin 1000) DEFAULT_CONFIG (governorOf initialRiskState)))) = [WARNING] \<and>
    resumeAt (riskState (snd (runAutoHaltChecks testHost lossyStore (Fin 1000) DEFAULT_CONFIG (governorOf initialRiskState)))) = None \<and>
    map severity (incidentTable (snd (runAutoHaltChecks testHost lossyStore (Fin 1000) DEFAULT_CONFIG (governorOf initialRiskState)))) = [CRITICAL]) \<and>
   (\<not> incidentAccepted downHost (Fin 1000) (governorOf initialRiskState) \<and>
    isHalted (riskState (snd (runAutoHaltChecks downHost lossyStore (Fin 1000) DEFAULT_CONFIG (governorOf initialRiskState)))) \<and>
    isl (fst (runAutoHaltChecks downHost lossyStore (Fin 1000) DEFAULT_CONFIG (governorOf initialRiskState))) \<and>
    incidentTable (snd (runAutoHaltChecks downHost lossyStore (Fin 1000) DEFAULT_CONFIG (governorOf initialRiskState))) = []) \<and>
   (isHalted (refreshRiskCounters emptyStore blockedState) \<and>
    fst (runAutoHaltChecks testHost emptyStore (Fin 1000) DEFAULT_CONFIG (governorOf blockedState)) = Inr [] \<and>
    incidentTable (snd (runAutoHaltChecks testHost emptyStore (Fin 1000) DEFAULT_CONFIG (governorOf blockedState))) = []) \<and>
   (fst (activateKillSwitch testHost (Fin 1000) ''manual'' (governorOf initialRiskState)) = Inr () \<and>
    isHalted (riskState (snd (activateKillSwitch testHost (Fin 1000) ''manual''
                                (governorOf initialRiskState)))) \<and>
    map severity (incidentTable (snd (activateKillSwitch testHost (Fin 1000) ''manual''
                                (governorOf initialRiskState)))) = [CRITICAL]) \<and>
   (isl (fst (activateKillSwitch downHost (Fin 1000) ''manual'' (governorOf initialRiskState))) \<and>
    isHalted (riskState (snd (activateKillSwitch downHost (Fin 1000) ''manual''
                                (governorOf initialRiskState)))) \<and>
    incidentTable (snd (activateKillSwitch downHost (Fin 1000) ''manual''
                                (governorOf initialRiskState))) = [])"
proof -
  have a: "\<not> isHalted drawdownBreached"
      "jge (jabs (todayDrawdownPct drawdownBreached)) (dailyMaxDrawdownPct DEFAULT_CONFIG)"
      "resumeAt drawdownBreached = None"
    by (simp_all add: drawdownBreached_def initialRiskState_def DEFAULT_CONFIG_def jge_def)
  have b: "\<not> isHalted lossesBreached"
      "\<not> jge (jabs (todayDrawdownPct lossesBreached)) (dailyMaxDrawdownPct DEFAULT_CONFIG)"
      "jge (consecutiveLosses lossesBreached) (maxConsecutiveLosses DEFAULT_CONFIG)"
      "resumeAt initialRiskState = None"
    by (simp_all add: lossesBreached_def initialRiskState_def DEFAULT_CONFIG_def jge_def)
  have c: "isHalted (refreshRiskCounters emptyStore blockedState)"
    by (simp add: refresh_isHalted blockedState_def)
  have g: "riskState (governorOf x) = x" "incidentTable (governorOf x) = []" for x
    by (simp_all add: governorOf_def)
  have s: "incidentAccepted testHost (Fin 1000) (governorOf x)"
      "\<not> incidentAccepted downHost (Fin 1000) (governorOf x)" for x
    by (simp_all add: incidentAccepted_def governorOf_def testHost_def downHost_def)
  have day: "jadd (Fin 1000) (Fin (24 * 3600000)) = Fin 86401000"
    by (simp add: fl_eval)
  have p1: "isHalted (riskState (snd (runAutoHaltChecks testHost emptyStore (Fin 1000) DEFAULT_CONFIG (governorOf drawdownBreached)))) \<and>
    \<not> isl (fst (runAutoHaltChecks testHost emptyStore (Fin 1000) DEFAULT_CONFIG (governorOf drawdownBreached))) \<and>
    map severity (projr (fst (runAutoHaltChecks testHost emptyStore (Fin 1000) DEFAULT_CONFIG (governorOf drawdownBreached)))) = [CRITICAL] \<and>
    resumeAt (riskState (snd (runAutoHaltChecks testHost emptyStore (Fin 1000) DEFAULT_CONFIG (governorOf drawdownBreached)))) = Some (Fin 86401000) \<and>
    map severity (incidentTable (snd (runAutoHaltChecks testHost emptyStore (Fin 1000) DEFAULT_CONFIG (governorOf drawdownBreached)))) = [CRITICAL]"
    using runAutoHaltChecks_transitions[where h = testHost and db = emptyStore and now = "Fin 1000"
        and config = DEFAULT_CONFIG and g = "governorOf drawdownBreached"] a s
    unfolding refresh_samples g day by simp
  have p2: "isHalted (riskState (snd (runAutoHaltChecks downHost emptyStore (Fin 1000) DEFAULT_CONFIG (governorOf drawdownBreached)))) \<and>
    isl (fst (runAutoHaltChecks downHost emptyStore (Fin 1000) DEFAULT_CONFIG (governorOf drawdownBreached))) \<and>
    resumeAt (riskState (snd (runAutoHaltChecks downHost emptyStore (Fin 1000) DEFAULT_CONFIG (governorOf drawdownBreached)))) = None \<and>
    incidentTable (snd (runAutoHaltChecks downHost emptyStore (Fin 1000) DEFAULT_CONFIG (governorOf drawdownBreached))) = []"
    using runAutoHaltChecks_transitions[where h = downHost and db = emptyStore and now = "Fin 1000"
        and config = DEFAULT_CONFIG and g = "governorOf drawdownBreached"] a s
    unfolding refresh_samples g by simp
  have p3: "isHalted (riskState (snd (runAutoHaltChecks testHost lossyStore (Fin 1000) DEFAULT_CONFIG (governorOf initialRiskState)))) \<and>
    \<not> isl (fst (runAutoHaltChecks testHost lossyStore (Fin 1000) DEFAULT_CONFIG (governorOf initialRiskState))) \<and>
    map severity (projr (fst (runAutoHaltChecks testHost lossyStore (Fin 1000) DEFAULT_CONFIG (governorOf initialRiskState)))) = [WARNING] \<and>
    resumeAt (riskState (snd (runAutoHaltChecks testHost lossyStore (Fin 1000) DEFAULT_CONFIG (governorOf initialRiskState)))) = None \<and>
    map severity (incidentTable (snd (runAutoHaltChecks testHost lossyStore (Fin 1000) DEFAULT_CONFIG (governorOf initialRiskState)))) = [CRITICAL]"
    using runAutoHaltChecks_transitions[where h = testHost and db = lossyStore and now = "Fin 1000"
        and config = DEFAULT_CONFIG and g = "governorOf initialRiskState"] b s
    unfolding refresh_samples g by simp
  have p4: "isHalted (riskState (snd (runAutoHaltChecks downHost lossyStore (Fin 1000) DEFAULT_CONFIG (governorOf initialRiskState)))) \<and>
    isl (fst (runAutoHaltChecks downHost lossyStore (Fin 1000) DEFAULT_CONFIG (governorOf initialRiskState))) \<and>
    incidentTable (snd (runAutoHaltChecks downHost lossyStore (Fin 1000) DEFAULT_CONFIG (governorOf initialRiskState))) = []"
    using runAutoHaltChecks_transitions[where h = downHost and db = lossyStore and now = "Fin 1000"
        and config = DEFAULT_CONFIG and g = "governorOf initialRiskState"] b s
    unfolding refresh_samples g by simp
  have p5: "fst (runAutoHaltChecks testHost emptyStore (Fin 1000) DEFAULT_CONFIG (governorOf blockedState)) = Inr [] \<and>
    incidentTable (snd (runAutoHaltChecks testHost emptyStore (Fin 1000) DEFAULT_CONFIG (governorOf blockedState))) = []"
    using runAutoHaltChecks_transitions[where h = testHost and db = emptyStore and now = "Fin 1000"
        and config = DEFAULT_CONFIG and g = "governorOf blockedState"] c
    by (simp add: g)
  have p6: "fst (activateKillSwitch testHost (Fin 1000) ''manual'' (governorOf initialRiskState)) = Inr () \<and>
    isHalted (riskState (snd (activateKillSwitch testHost (Fin 1000) ''manual''
                                (governorOf initialRiskState)))) \<and>
    map severity (incidentTable (snd (activateKillSwitch testHost (Fin 1000) ''manual''
                                (governorOf initialRiskState)))) = [CRITICAL]"
    using runAutoHaltChecks_transitions[where h = testHost and now = "Fin 1000"
        and g = "governorOf initialRiskState" and why = "''manual''"] s
    by (simp add: g)
  have p7: "isl (fst (activateKillSwitch downHost (Fin 1000) ''manual'' (governorOf initialRiskState))) \<and>
    isHalted (riskState (snd (activateKillSwitch downHost (Fin 1000) ''manual''
                                (governorOf initialRiskState)))) \<and>
    incidentTable (snd (activateKillSwitch downHost (Fin 1000) ''manual''
                                (governorOf initialRiskState))) = []"
    using runAutoHaltChecks_transitions[where h = downHost and now = "Fin 1000"
        and g = "governorOf initialRiskState" and why = "''manual''"] s
    by (simp add: g)
  from a b c s p1 p2 p3 p4 p5 p6 p7 show ?thesis by (simp add: refresh_samples)
qed

section \<open>The exit evaluator\<close>

lemma takeProfitLoop_find:
  "takeProfitLoop h pnl cp levels =
     (case find (\<lambda>l. \<not> triggered l \<and> jge pnl (pctGain l)) levels of
        None \<Rightarrow> None
      | Some l \<Rightarrow> Some \<lparr>sig_type = TAKE_PROFIT, sig_sellPct = sellPct l,
                        sig_reason = ''Take profit at +'' @ numStr h (pctGain l) @ ''% (selling ''
                                       @ numStr h (sellPct l) @ ''%)'',
                        sig_price = cp\<rparr>)"
  by (induction levels) simp_all

text \<open>Values of the arithmetic at the inputs of the cases below.\<close>

lemma pnl_100_74: "jmul (jdiv (jsub (Fin 74) (Fin 100)) (Fin 100)) (Fin 100) = Fin (- 26)"
  by (simp add: jsub_def fl_eval)

lemma pnl_100_80: "jmul (jdiv (jsub (Fin 80) (Fin 100)) (Fin 100)) (Fin 100) = Fin (- 20)"
  by (simp add: jsub_def fl_eval)

lemma pnl_100_150: "jmul (jdiv (jsub (Fin 150) (Fin 100)) (Fin 100)) (Fin 100) = Fin 50"
  by (simp add: jsub_def fl_eval)

lemma pnl_100_165: "jmul (jdiv (jsub (Fin 165) (Fin 100)) (Fin 100)) (Fin 100) = Fin 65"
  by (simp add: jsub_def fl_eval)

lemma pnl_100_175: "jmul (jdiv (jsub (Fin 175) (Fin 100)) (Fin 100)) (Fin 100) = Fin 75"
  by (simp add: jsub_def fl_eval)

lemma pnl_100_70: "jmul (jdiv (jsub (Fin 70) (Fin 100)) (Fin 100)) (Fin 100) = Fin (- 30)"
  by (simp add: jsub_def fl_eval)

lemma pnl_150_165: "jmul (jdiv (jsub (Fin 165) (Fin 150)) (Fin 150)) (Fin 100) = Fin 10"
  by (simp add: jsub_def fl_eval)

lemma pnl_150_175: "jmul (jdiv (jsub (Fin 175) (Fin 150)) (Fin 150)) (Fin 100) = Fin (2345624805922133 / 140737488355328)"
  by (simp add: jsub_def fl_eval)

lemma pnl_100_105: "jmul (jdiv (jsub (Fin 105) (Fin 100)) (Fin 100)) (Fin 100) = Fin 5"
  by (simp add: jsub_def fl_eval)

lemma pnl_half_051: "jmul (jdiv (jsub (lit (51 / 100)) (Fin (1 / 2))) (Fin (1 / 2))) (Fin 100) = Fin (1125899906842625 / 562949953421312)"
  by (simp add: jsub_def fl_eval)

lemma threshold_200: "jmul (Fin 200) (jsub (Fin 1) (jdiv (Fin 15) (Fin 100))) = Fin 170"
  by (simp add: jsub_def fl_eval)

lemma threshold_105: "jmul (Fin 105) (jsub (Fin 1) (jdiv (Fin 15) (Fin 100))) = Fin (357 / 4)"
  by (simp add: jsub_def fl_eval)

lemma threshold_100: "jmul (Fin 100) (jsub (Fin 1) (jdiv (Fin 15) (Fin 100))) = Fin 85"
  by (simp add: jsub_def fl_eval)

lemma threshold_06: "jle (lit (51 / 100)) (jmul (lit (3 / 5)) (jsub (Fin 1) (jdiv (Fin 15) (Fin 100))))"
  by (simp add: jsub_def fl_eval)

lemma held_0: "jdiv (jsub (Fin 0) (Fin 0)) (Fin 60000) = Fin 0"
  by (simp add: jsub_def fl_eval)

lemma held_61: "jdiv (jsub (Fin 3660000) (Fin 0)) (Fin 60000) = Fin 61"
  by (simp add: jsub_def fl_eval)

lemma elapsed_61: "jsub (Fin 3660000) (Fin 0) = Fin 3660000"
  by (simp add: jsub_def fl_eval)

lemma minutes_61: "jdiv (Fin 3660000) (Fin 60000) = Fin 61"
  by (simp add: jsub_def fl_eval)

text \<open>
  How the model follows binary64 arithmetic at a threshold: with a high-water mark of
  0.6 and 15% trailing the threshold \<open>0.6 * (1 - 15 / 100)\<close> is the binary64 value of
  0.51, so a price of 0.51 on a position entered at 0.5 fires the trailing stop.
\<close>

lemma trailing_stop_at_the_threshold:
  "map_option sig_type (checkExitConditions testHost (Fin 0)
       (samplePosition (Fin (1/2)) (lit (6/10)) (Fin 0)) (lit (51/100)) DEFAULT_CONFIG)
     = Some TRAILING_STOP"
  by (simp add: checkExitConditions_def pnlPctOf_def trailingStopPriceOf_def minutesHeldOf_def
      samplePosition_def DEFAULT_CONFIG_def untriggered_def jge_def jgt_def Let_def
      pnl_half_051 threshold_06 held_0)

text \<open>
  Claim C3 as stated fails in its concrete cases, which name only some of the inputs.
  With a high-water mark of 200 and 15% trailing, a position entered at 100 with the
  default take-profit levels returns TAKE_PROFIT at price 165, not TRAILING_STOP, and
  returns TAKE_PROFIT at price 175, not nothing: the +50% level fires first. A
  position held 61 minutes against a limit of 60 with a gain below 10% returns
  STOP_LOSS when that gain is -30%.
\<close>

theorem checkExitConditions_cases_counterexample:
  "map_option sig_type (checkExitConditions testHost (Fin 0)
       (samplePosition (Fin 100) (Fin 200) (Fin 0)) (Fin 165) DEFAULT_CONFIG) = Some TAKE_PROFIT \<and>
   map_option sig_type (checkExitConditions testHost (Fin 0)
       (samplePosition (Fin 100) (Fin 200) (Fin 0)) (Fin 175) DEFAULT_CONFIG) = Some TAKE_PROFIT \<and>
   jlt (pnlPctOf (samplePosition (Fin 100) (Fin 100) (Fin 0)) (Fin 70)) (Fin 10) \<and>
   minutesHeldOf (Fin (61 * 60000)) (samplePosition (Fin 100) (Fin 100) (Fin 0)) = Fin 61 \<and>
   map_option sig_type (checkExitConditions testHost (Fin (61 * 60000))
       (samplePosition (Fin 100) (Fin 100) (Fin 0)) (Fin 70) DEFAULT_CONFIG) = Some STOP_LOSS"
  by (simp add: checkExitConditions_def pnlPctOf_def trailingStopPriceOf_def minutesHeldOf_def
      samplePosition_def DEFAULT_CONFIG_def untriggered_def jge_def jgt_def Let_def
      pnl_100_165 pnl_100_175 pnl_100_70 held_61)

text \<open>
  Claim C3, as amended. \<^verbatim>\<open>checkExitConditions\<close> evaluates four rules in this order and
  returns the first that fires, and nothing when none does:
  stop-loss when P&L% is at most \<open>-stopLossPct\<close>, selling 100%;
  take-profit for the first untriggered level whose gain the P&L% has reached, selling
  that level's percentage;
  trailing stop when the price is at most \<open>highWaterMark * (1 - trailingStopPct / 100)\<close>
  and P&L% is positive, selling 100%;
  time stop when the minutes held have reached the limit and P&L% is below 10, selling
  100%; all of it in binary64 arithmetic.
  So a position below both its stop-loss and its trailing threshold returns STOP_LOSS.
  The cases of the specification: entry 100 with a 25% stop returns STOP_LOSS at price 74
  and not at 80; at 150 the untriggered +50% level of the default levels fires and
  sells 30%; with a high-water mark of 200 and 15% trailing the threshold is 170, so
  price 165 returns TRAILING_STOP when the position is in profit and neither the
  stop-loss nor a take-profit level fires, and price 175 never returns TRAILING_STOP
  and returns nothing when no other rule fires; 61 minutes held against a limit of 60
  with a gain below 10% returns TIME_STOP when no earlier rule fires.
\<close>

theorem checkExitConditions_priority:
  fixes h now position curPrice config
  defines "pnl \<equiv> jmul (jdiv (jsub curPrice (entryPrice position)) (entryPrice position)) (Fin 100)"
  defines "stopLoss \<equiv> jle pnl (jneg (stopLossPct config))"
  defines "level \<equiv> find (\<lambda>l. \<not> triggered l \<and> jge pnl (pctGain l)) (takeProfitLevels position)"
  defines "trailing \<equiv>
     jle curPrice (jmul (highWaterMark position)
                        (jsub (Fin 1) (jdiv (trailingStopPct_cfg config) (Fin 100))))
     \<and> jgt pnl (Fin 0)"
  defines "timeStop \<equiv>
     jge (jdiv (jsub now (entryTime position)) (Fin 60000)) (timeStopMinutes_cfg config)
     \<and> jlt pnl (Fin 10)"
  defines "res \<equiv> checkExitConditions h now position curPrice config"
  shows
  "(stopLoss \<longrightarrow>
      map_option sig_type res = Some STOP_LOSS \<and> map_option sig_sellPct res = Some (Fin 100)) \<and>
   (\<not> stopLoss \<and> level \<noteq> None \<longrightarrow>
      map_option sig_type res = Some TAKE_PROFIT \<and>
      map_option sig_sellPct res = map_option sellPct level) \<and>
   (\<not> stopLoss \<and> level = None \<and> trailing \<longrightarrow>
      map_option sig_type res = Some TRAILING_STOP \<and> map_option sig_sellPct res = Some (Fin 100)) \<and>
   (\<not> stopLoss \<and> level = None \<and> \<not> trailing \<and> timeStop \<longrightarrow>
      map_option sig_type res = Some TIME_STOP \<and> map_option sig_sellPct res = Some (Fin 100)) \<and>
   (\<not> stopLoss \<and> level = None \<and> \<not> trailing \<and> \<not> timeStop \<longrightarrow> res = None) \<and>
   (res \<noteq> None \<longrightarrow> map_option sig_price res = Some curPrice) \<and>
   (stopLoss \<and> jle curPrice (jmul (highWaterMark position)
                        (jsub (Fin 1) (jdiv (trailingStopPct_cfg config) (Fin 100))))
      \<longrightarrow> map_option sig_type res = Some STOP_LOSS) \<and>
   (entryPrice position = Fin 100 \<and> stopLossPct config = Fin 25 \<and> curPrice = Fin 74
      \<longrightarrow> map_option sig_type res = Some STOP_LOSS) \<and>
   (entryPrice position = Fin 100 \<and> stopLossPct config = Fin 25 \<and> curPrice = Fin 80
      \<longrightarrow> map_option sig_type res \<noteq> Some STOP_LOSS) \<and>
   (entryPrice position = Fin 100 \<and> stopLossPct config = Fin 25 \<and> curPrice = Fin 150 \<and>
    takeProfitLevels position = [untriggered (Fin 50, Fin 30), untriggered (Fin 100, Fin 30)]
      \<longrightarrow> map_option sig_type res = Some TAKE_PROFIT \<and>
          map_option sig_sellPct res = Some (Fin 30)) \<and>
   jmul (Fin 200) (jsub (Fin 1) (jdiv (Fin 15) (Fin 100))) = Fin 170 \<and>
   (highWaterMark position = Fin 200 \<and> trailingStopPct_cfg config = Fin 15 \<and> curPrice = Fin 165 \<and>
    jgt pnl (Fin 0) \<and> \<not> stopLoss \<and> level = None
      \<longrightarrow> map_option sig_type res = Some TRAILING_STOP) \<and>
   (highWaterMark position = Fin 200 \<and> trailingStopPct_cfg config = Fin 15 \<and> curPrice = Fin 175
      \<longrightarrow> map_option sig_type res \<noteq> Some TRAILING_STOP) \<and>
   (highWaterMark position = Fin 200 \<and> trailingStopPct_cfg config = Fin 15 \<and> curPrice = Fin 175 \<and>
    \<not> stopLoss \<and> level = None \<and> \<not> timeStop
      \<longrightarrow> res = None) \<and>
   (jsub now (entryTime position) = Fin (61 * 60000) \<and> timeStopMinutes_cfg config = Fin 60 \<and>
    jlt pnl (Fin 10) \<and> \<not> stopLoss \<and> level = None \<and> \<not> trailing
      \<longrightarrow> map_option sig_type res = Some TIME_STOP)"
proof -
  have "res =
     (if stopLoss
      then Some \<lparr>sig_type = STOP_LOSS, sig_sellPct = Fin 100,
                 sig_reason = ''Stop-loss triggered at '' @ toFixed h 1 pnl @ ''% (limit: -''
                                @ numStr h (stopLossPct config) @ ''%)'',
                 sig_price = curPrice\<rparr>
      else case takeProfitLoop h pnl curPrice (takeProfitLevels position) of
        Some s \<Rightarrow> Some s
      | None \<Rightarrow>
          if trailing
          then Some \<lparr>sig_type = TRAILING_STOP, sig_sellPct = Fin 100,
                     sig_reason = ''Trailing stop: price '' @ toFixed h 8 curPrice
                                    @ '' fell below '' @ toFixed h 8 (trailingStopPriceOf position config)
                                    @ '' ('' @ numStr h (trailingStopPct_cfg config) @ ''% from high)'',
                     sig_price = curPrice\<rparr>
          else if timeStop
          then Some \<lparr>sig_type = TIME_STOP, sig_sellPct = Fin 100,
                     sig_reason = ''Time stop: held '' @ toFixed h 0 (minutesHeldOf now position)
                                    @ '' min with only '' @ toFixed h 1 pnl @ ''% gain'',
                     sig_price = curPrice\<rparr>
          else None)"
    unfolding res_def checkExitConditions_def pnl_def stopLoss_def trailing_def timeStop_def
      pnlPctOf_def trailingStopPriceOf_def minutesHeldOf_def Let_def
    by (simp split: option.splits del: append.simps)
  then have shape: "res =
     (if stopLoss
      then Some \<lparr>sig_type = STOP_LOSS, sig_sellPct = Fin 100,
                 sig_reason = ''Stop-loss triggered at '' @ toFixed h 1 pnl @ ''% (limit: -''
                                @ numStr h (stopLossPct config) @ ''%)'',
                 sig_price = curPrice\<rparr>
      else case level of
        Some l \<Rightarrow> Some \<lparr>sig_type = TAKE_PROFIT, sig_sellPct = sellPct l,
                        sig_reason = ''Take profit at +'' @ numStr h (pctGain l) @ ''% (selling ''
                                       @ numStr h (sellPct l) @ ''%)'',
                        sig_price = curPrice\<rparr>
      | None \<Rightarrow>
          if trailing
          then Some \<lparr>sig_type = TRAILING_STOP, sig_sellPct = Fin 100,
                     sig_reason = ''Trailing stop: price '' @ toFixed h 8 curPrice
                                    @ '' fell below '' @ toFixed h 8 (trailingStopPriceOf position config)
                                    @ '' ('' @ numStr h (trailingStopPct_cfg config) @ ''% from high)'',
                     sig_price = curPrice\<rparr>
          else if timeStop
          then Some \<lparr>sig_type = TIME_STOP, sig_sellPct = Fin 100,
                     sig_reason = ''Time stop: held '' @ toFixed h 0 (minutesHeldOf now position)
                                    @ '' min with only '' @ toFixed h 1 pnl @ ''% gain'',
                     sig_price = curPrice\<rparr>
          else None)"
    unfolding level_def by (simp add: takeProfitLoop_find split: option.splits del: append.simps)
  have g1: "stopLoss \<longrightarrow>
      map_option sig_type res = Some STOP_LOSS \<and> map_option sig_sellPct res = Some (Fin 100)"
    by (simp add: shape)
  have g2: "\<not> stopLoss \<and> level \<noteq> None \<longrightarrow>
      map_option sig_type res = Some TAKE_PROFIT \<and>
      map_option sig_sellPct res = map_option sellPct level"
    by (auto simp add: shape)
  have g3: "\<not> stopLoss \<and> level = None \<and> trailing \<longrightarrow>
      map_option sig_type res = Some TRAILING_STOP \<and> map_option sig_sellPct res = Some (Fin 100)"
    by (simp add: shape)
  have g4: "\<not> stopLoss \<and> level = None \<and> \<not> trailing \<and> timeStop \<longrightarrow>
      map_option sig_type res = Some TIME_STOP \<and> map_option sig_sellPct res = Some (Fin 100)"
    by (simp add: shape)
  have g5: "\<not> stopLoss \<and> level = None \<and> \<not> trailing \<and> \<not> timeStop \<longrightarrow> res = None"
    by (simp add: shape)
  have g6: "res \<noteq> None \<longrightarrow> map_option sig_price res = Some curPrice"
    by (auto simp add: shape split: option.splits if_splits)
  have c1: "entryPrice position = Fin 100 \<and> stopLossPct config = Fin 25 \<and> curPrice = Fin 74
      \<longrightarrow> stopLoss"
    by (simp add: stopLoss_def pnl_def pnl_100_74 pnl_100_80)
  have c2: "entryPrice position = Fin 100 \<and> stopLossPct config = Fin 25 \<and> curPrice = Fin 80
      \<longrightarrow> \<not> stopLoss"
    by (simp add: stopLoss_def pnl_def pnl_100_74 pnl_100_80)
  have c3: "entryPrice position = Fin 100 \<and> stopLossPct config = Fin 25 \<and> curPrice = Fin 150 \<and>
    takeProfitLevels position = [untriggered (Fin 50, Fin 30), untriggered (Fin 100, Fin 30)]
      \<longrightarrow> \<not> stopLoss \<and> level = Some (untriggered (Fin 50, Fin 30))"
    by (simp add: stopLoss_def level_def pnl_def jge_def untriggered_def pnl_100_150)
  have c4: "highWaterMark position = Fin 200 \<and> trailingStopPct_cfg config = Fin 15 \<and> curPrice = Fin 165 \<and>
    jgt pnl (Fin 0) \<longrightarrow> trailing"
    by (simp add: trailing_def threshold_200)
  have c5: "highWaterMark position = Fin 200 \<and> trailingStopPct_cfg config = Fin 15 \<and> curPrice = Fin 175
      \<longrightarrow> \<not> trailing"
    by (simp add: trailing_def threshold_200)
  have c0: "jmul (Fin 200) (jsub (Fin 1) (jdiv (Fin 15) (Fin 100))) = Fin 170"
    by (rule threshold_200)
  have c6: "jsub now (entryTime position) = Fin (61 * 60000) \<and> timeStopMinutes_cfg config = Fin 60 \<and>
    jlt pnl (Fin 10) \<longrightarrow> timeStop"
    by (simp add: timeStop_def jge_def minutes_61)
  have n5: "\<not> trailing \<longrightarrow> map_option sig_type res \<noteq> Some TRAILING_STOP"
    by (auto simp add: shape split: option.splits)
  have n2: "\<not> stopLoss \<longrightarrow> map_option sig_type res \<noteq> Some STOP_LOSS"
    by (auto simp add: shape split: option.splits)
  have c3': "level = Some (untriggered (Fin 50, Fin 30)) \<longrightarrow>
      map_option sellPct level = Some (Fin 30)"
    by (simp add: untriggered_def)
  show ?thesis
    apply (intro conjI)
    subgoal using g1 by blast
    subgoal using g2 by blast
    subgoal using g3 by blast
    subgoal using g4 by blast
    subgoal using g5 by blast
    subgoal using g6 by blast
    subgoal using g1 by blast
    subgoal using c1 g1 by blast
    subgoal using c2 n2 by blast
    subgoal using c3 c3' g2 by auto
    subgoal using c0 by blast
    subgoal using c4 g3 by blast
    subgoal using c5 n5 by blast
    subgoal using c5 g5 by blast
    subgoal using c6 g4 by blast
    done
qed

theorem checkExitConditions_priority_witness:
  "map_option sig_type (checkExitConditions testHost (Fin 0)
       (samplePosition (Fin 100) (Fin 200) (Fin 0)) (Fin 74) DEFAULT_CONFIG) = Some STOP_LOSS \<and>
   map_option sig_type (checkExitConditions testHost (Fin 0)
       (samplePosition (Fin 100) (Fin 100) (Fin 0)) (Fin 80) DEFAULT_CONFIG) \<noteq> Some STOP_LOSS \<and>
   map_option sig_type (checkExitConditions testHost (Fin 0)
       (samplePosition (Fin 100) (Fin 150) (Fin 0)) (Fin 150) DEFAULT_CONFIG) = Some TAKE_PROFIT \<and>
   map_option sig_sellPct (checkExitConditions testHost (Fin 0)
       (samplePosition (Fin 100) (Fin 150) (Fin 0)) (Fin 150) DEFAULT_CONFIG) = Some (Fin 30) \<and>
   map_option sig_type (checkExitConditions testHost (Fin 0)
       (samplePosition (Fin 150) (Fin 200) (Fin 0)) (Fin 165) DEFAULT_CONFIG) = Some TRAILING_STOP \<and>
   checkExitConditions testHost (Fin 0)
       (samplePosition (Fin 150) (Fin 200) (Fin 0)) (Fin 175) DEFAULT_CONFIG = None \<and>
   map_option sig_type (checkExitConditions testHost (Fin (61 * 60000))
       (samplePosition (Fin 100) (Fin 105) (Fin 0)) (Fin 105) DEFAULT_CONFIG) = Some TIME_STOP"
proof -
  note defs = samplePosition_def DEFAULT_CONFIG_def untriggered_def jge_def jgt_def
    pnl_150_165 pnl_150_175 pnl_100_105 threshold_105 held_0 elapsed_61
  have w1: "map_option sig_type (checkExitConditions testHost (Fin 0)
       (samplePosition (Fin 100) (Fin 200) (Fin 0)) (Fin 74) DEFAULT_CONFIG) = Some STOP_LOSS"
    using checkExitConditions_priority[where h = testHost and now = "Fin 0"
        and position = "samplePosition (Fin 100) (Fin 200) (Fin 0)" and curPrice = "Fin 74"
        and config = DEFAULT_CONFIG]
    by (simp add: defs)
  have w2: "map_option sig_type (checkExitConditions testHost (Fin 0)
       (samplePosition (Fin 100) (Fin 100) (Fin 0)) (Fin 80) DEFAULT_CONFIG) \<noteq> Some STOP_LOSS"
    using checkExitConditions_priority[where h = testHost and now = "Fin 0"
        and position = "samplePosition (Fin 100) (Fin 100) (Fin 0)" and curPrice = "Fin 80"
        and config = DEFAULT_CONFIG]
    by (simp add: defs)
  have w3: "map_option sig_type (checkExitConditions testHost (Fin 0)
       (samplePosition (Fin 100) (Fin 150) (Fin 0)) (Fin 150) DEFAULT_CONFIG) = Some TAKE_PROFIT \<and>
    map_option sig_sellPct (checkExitConditions testHost (Fin 0)
       (samplePosition (Fin 100) (Fin 150) (Fin 0)) (Fin 150) DEFAULT_CONFIG) = Some (Fin 30)"
    using checkExitConditions_priority[where h = testHost and now = "Fin 0"
        and position = "samplePosition (Fin 100) (Fin 150) (Fin 0)" and curPrice = "Fin 150"
        and config = DEFAULT_CONFIG]
    by (simp add: defs)
  have w4: "map_option sig_type (checkExitConditions testHost (Fin 0)
       (samplePosition (Fin 150) (Fin 200) (Fin 0)) (Fin 165) DEFAULT_CONFIG) = Some TRAILING_STOP"
    using checkExitConditions_priority[where h = testHost and now = "Fin 0"
        and position = "samplePosition (Fin 150) (Fin 200) (Fin 0)" and curPrice = "Fin 165"
        and config = DEFAULT_CONFIG]
    by (simp add: defs)
  have w5: "checkExitConditions testHost (Fin 0)
       (samplePosition (Fin 150) (Fin 200) (Fin 0)) (Fin 175) DEFAULT_CONFIG = None"
    using checkExitConditions_priority[where h = testHost and now = "Fin 0"
        and position = "samplePosition (Fin 150) (Fin 200) (Fin 0)" and curPrice = "Fin 175"
        and config = DEFAULT_CONFIG]
    by (simp add: defs)
  have w6: "map_option sig_type (checkExitConditions testHost (Fin (61 * 60000))
       (samplePosition (Fin 100) (Fin 105) (Fin 0)) (Fin 105) DEFAULT_CONFIG) = Some TIME_STOP"
    using checkExitConditions_priority[where h = testHost and now = "Fin (61 * 60000)"
        and position = "samplePosition (Fin 100) (Fin 105) (Fin 0)" and curPrice = "Fin 105"
        and config = DEFAULT_CONFIG]
    by (simp add: defs)
  from w1 w2 w3 w4 w5 w6 show ?thesis by simp
qed

section \<open>The failure branch of a simulated buy\<close>










end
